theory Spec2Isabelle
  imports Complex_Main "HOL-Library.Char_ord" "HOL-Library.List_Lexorder" "HOL-Library.Multiset"
begin

section \<open>Strings of the settlement page\<close>

text \<open>
  JavaScript strings are modelled as \<open>string\<close>, the bytes of their UTF-8 encoding. The
  strings the settlement page builds for the settlement id (decimal timestamps, base-36
  digits, fixed prefixes) are ASCII, so \<open>toUpperCase\<close> is modelled on ASCII letters.
\<close>

definition upper_char :: "char \<Rightarrow> char" where
  "upper_char c =
     (case map_of (zip ''abcdefghijklmnopqrstuvwxyz'' ''ABCDEFGHIJKLMNOPQRSTUVWXYZ'') c of
        None \<Rightarrow> c
      | Some C \<Rightarrow> C)"

definition toUpperCase :: "string \<Rightarrow> string" where
  "toUpperCase s = map upper_char s"

definition substring :: "nat \<Rightarrow> nat \<Rightarrow> string \<Rightarrow> string" where
  "substring a b s = take (b - a) (drop a s)"

text \<open>
  \<open>String.prototype.trim\<close> removes the white space and line terminators of ECMAScript from
  both ends: U+0009 to U+000D, U+0020, U+00A0, U+1680, U+2000 to U+200A, U+2028, U+2029,
  U+202F, U+205F, U+3000 and U+FEFF, here in their UTF-8 encoding.
\<close>

definition white_space :: "string list" where
  "white_space =
     [[CHR 0x09], [CHR 0x0A], [CHR 0x0B], [CHR 0x0C], [CHR 0x0D], [CHR 0x20],
      [CHR 0xC2, CHR 0xA0], [CHR 0xE1, CHR 0x9A, CHR 0x80],
      [CHR 0xE2, CHR 0x80, CHR 0x80], [CHR 0xE2, CHR 0x80, CHR 0x81],
      [CHR 0xE2, CHR 0x80, CHR 0x82], [CHR 0xE2, CHR 0x80, CHR 0x83],
      [CHR 0xE2, CHR 0x80, CHR 0x84], [CHR 0xE2, CHR 0x80, CHR 0x85],
      [CHR 0xE2, CHR 0x80, CHR 0x86], [CHR 0xE2, CHR 0x80, CHR 0x87],
      [CHR 0xE2, CHR 0x80, CHR 0x88], [CHR 0xE2, CHR 0x80, CHR 0x89],
      [CHR 0xE2, CHR 0x80, CHR 0x8A], [CHR 0xE2, CHR 0x80, CHR 0xA8],
      [CHR 0xE2, CHR 0x80, CHR 0xA9], [CHR 0xE2, CHR 0x80, CHR 0xAF],
      [CHR 0xE2, CHR 0x81, CHR 0x9F], [CHR 0xE3, CHR 0x80, CHR 0x80],
      [CHR 0xEF, CHR 0xBB, CHR 0xBF]]"

text \<open>Removing from the front of \<open>s\<close> every leading occurrence of one of the sequences \<open>ws\<close>.\<close>

function strip :: "string list \<Rightarrow> string \<Rightarrow> string" where
  "strip ws s =
     (case find (\<lambda>w. w \<noteq> [] \<and> take (length w) s = w) ws of
        None \<Rightarrow> s
      | Some w \<Rightarrow> strip ws (drop (length w) s))"
  by pat_completeness auto
termination
proof (relation "measure (\<lambda>(ws, s). length s)")
  show "wf (measure (\<lambda>(ws, s). length s))" by simp
next
  fix ws :: "string list" and s w :: string
  assume "find (\<lambda>w. w \<noteq> [] \<and> take (length w) s = w) ws = Some w"
  then have "w \<noteq> []" "take (length w) s = w" by (auto simp: find_Some_iff)
  then have "s \<noteq> []" "0 < length w" by auto
  then show "((ws, drop (length w) s), (ws, s)) \<in> measure (\<lambda>(ws, s). length s)" by simp
qed

declare strip.simps [simp del]

definition trim :: "string \<Rightarrow> string" where
  "trim s = rev (strip (map rev white_space) (rev (strip white_space s)))"

text \<open>\<open>x.trim() || null\<close>: the empty string is falsy.\<close>

definition trim_or_null :: "string \<Rightarrow> string option" where
  "trim_or_null s = (if trim s = [] then None else Some (trim s))"

text \<open>The decimal rendering of a non-negative integer inside a template literal.\<close>

function decimal :: "nat \<Rightarrow> string" where
  "decimal n = (if n < 10 then [''0123456789'' ! n]
                else decimal (n div 10) @ [''0123456789'' ! (n mod 10)])"
  by pat_completeness auto
termination
  by (relation "measure (\<lambda>n. n)") auto

declare decimal.simps [simp del]

text \<open>
  \<open>generateSettlementId\<close>: \<open>now\<close> is the value of \<open>Date.now()\<close> and \<open>rnd\<close> the string
  \<open>Math.random().toString(36)\<close>, both supplied by the environment.
\<close>

definition generateSettlementId :: "nat \<Rightarrow> string \<Rightarrow> string" where
  "generateSettlementId now rnd =
     toUpperCase (''STL_'' @ decimal now @ ''_'' @ substring 2 8 rnd)"

section \<open>Data model\<close>

text \<open>
  Credit amounts are JavaScript numbers holding integers (the form field is a number input
  with \<open>min = 1\<close> and the default integer step); they are modelled as \<open>int\<close>. The reward
  amount is a decimal that is only copied, never computed with; it is modelled as \<open>real\<close>.
\<close>

datatype status = Pending | Processed | Failed

datatype transfer_status = Completed | TransferPending | TransferFailed

text \<open>\<open>interface User\<close>: the rows of the page's cached user list.\<close>

record user =
  u_id :: string
  u_full_name :: string
  u_email :: string
  credit_balance :: int

text \<open>The \<open>formData\<close> state of the page.\<close>

record form_data =
  f_userId :: string
  f_creditsUsed :: int
  f_rewardAmount :: real
  f_network :: string
  f_walletAddress :: string
  f_transactionHash :: string
  f_notes :: string

text \<open>\<open>settlementPayload\<close>, and the stored row the insert returns (\<open>interface Settlement\<close>).\<close>

record settlement_payload =
  s_settlementId :: string
  s_userId :: string
  s_creditsUsed :: int
  s_rewardAmount :: real
  s_network :: string
  s_walletAddress :: string
  s_transactionHash :: "string option"
  s_status :: status
  s_notes :: "string option"

record settlement = settlement_payload +
  s_id :: string
  s_created_at :: string
  s_updated_at :: string

text \<open>\<open>ledgerPayload\<close>: a row of \<open>credit_ledger\<close>.\<close>

record ledger_entry =
  l_userId :: string
  l_amount :: int
  l_transaction_type :: string
  l_description :: string
  l_reference_id :: string
  l_balance_after :: int

text \<open>\<open>transferPayload\<close>: a row of \<open>nila_transfers\<close>.\<close>

record transfer =
  t_userId :: string
  t_settlementId :: string
  t_nilaAmount :: real
  t_network :: string
  t_walletAddress :: string
  t_transactionHash :: "string option"
  t_status :: transfer_status
  t_transferType :: string
  t_notes :: string

text \<open>A row of \<open>profiles\<close>, with the columns the page reads and writes.\<close>

record profile =
  p_id :: string
  p_full_name :: string
  p_email :: string
  p_credit_balance :: int
  p_updated_at :: string

text \<open>The four tables the settlement page writes to.\<close>

record db =
  settlements :: "settlement list"
  credit_ledger :: "ledger_entry list"
  profiles :: "profile list"
  nila_transfers :: "transfer list"

section \<open>The store\<close>

text \<open>
  Each store call of the page either succeeds or reports an error object, which the page
  throws. Which calls fail for reasons outside the page (network, store outage) is decided
  by the environment.
\<close>

datatype store_call =
    SettlementInsert | LedgerInsert | ProfileUpdate | TransferInsert
  | SettlementsSelect | UsersSelect

datatype pg_error = StoreFault store_call | UniqueViolation

record env =
  e_now :: nat
  e_random :: string
  e_iso :: string
  e_row_id :: string
  e_store_now :: string
  e_fault :: "store_call \<Rightarrow> bool"

text \<open>
  The row that \<open>insert(...).select().single()\<close> returns: the payload with the row id and
  the timestamps the store assigns (\<open>e_row_id\<close>, \<open>e_store_now\<close>).
\<close>

definition stored_row :: "env \<Rightarrow> settlement_payload \<Rightarrow> settlement" where
  "stored_row env payload =
     \<lparr>s_settlementId = s_settlementId payload, s_userId = s_userId payload,
      s_creditsUsed = s_creditsUsed payload, s_rewardAmount = s_rewardAmount payload,
      s_network = s_network payload, s_walletAddress = s_walletAddress payload,
      s_transactionHash = s_transactionHash payload, s_status = s_status payload,
      s_notes = s_notes payload,
      s_id = e_row_id env, s_created_at = e_store_now env, s_updated_at = e_store_now env\<rparr>"

text \<open>
  Modelled from the spec: the schema of the \<open>settlements\<close> table is not part of the
  sources at hand. The spec gives it as \<open>settlements(settlementId unique, ...)\<close> and calls a
  duplicate a fatal conflict, so an insert whose \<open>settlementId\<close> is already stored is
  refused with an error and writes nothing.
\<close>

definition insert_settlement :: "env \<Rightarrow> settlement_payload \<Rightarrow> db \<Rightarrow> (pg_error + settlement) \<times> db" where
  "insert_settlement env payload d =
     (if e_fault env SettlementInsert then (Inl (StoreFault SettlementInsert), d)
      else if s_settlementId payload \<in> set (map s_settlementId (settlements d))
      then (Inl UniqueViolation, d)
      else (let row = stored_row env payload
            in (Inr row, d\<lparr>settlements := settlements d @ [row]\<rparr>)))"

definition insert_ledger :: "env \<Rightarrow> ledger_entry \<Rightarrow> db \<Rightarrow> pg_error option \<times> db" where
  "insert_ledger env payload d =
     (if e_fault env LedgerInsert then (Some (StoreFault LedgerInsert), d)
      else (None, d\<lparr>credit_ledger := credit_ledger d @ [payload]\<rparr>))"

text \<open>\<open>update({credit_balance, updated_at}).eq('id', userId)\<close>: every row with that id.\<close>

definition update_credit_balance :: "env \<Rightarrow> string \<Rightarrow> int \<Rightarrow> string \<Rightarrow> db \<Rightarrow> pg_error option \<times> db" where
  "update_credit_balance env userId new_balance updated_at d =
     (if e_fault env ProfileUpdate then (Some (StoreFault ProfileUpdate), d)
      else (None, d\<lparr>profiles :=
              map (\<lambda>p. if p_id p = userId
                        then p\<lparr>p_credit_balance := new_balance, p_updated_at := updated_at\<rparr>
                        else p) (profiles d)\<rparr>))"

definition insert_transfer :: "env \<Rightarrow> transfer \<Rightarrow> db \<Rightarrow> pg_error option \<times> db" where
  "insert_transfer env payload d =
     (if e_fault env TransferInsert then (Some (StoreFault TransferInsert), d)
      else (None, d\<lparr>nila_transfers := nila_transfers d @ [payload]\<rparr>))"

text \<open>
  \<open>select('id, full_name, email, credit_balance').order('full_name')\<close>; the store's
  collation is modelled as the lexicographic order of the characters.
\<close>

definition select_users :: "env \<Rightarrow> db \<Rightarrow> pg_error + user list" where
  "select_users env d =
     (if e_fault env UsersSelect then Inl (StoreFault UsersSelect)
      else Inr (sort_key u_full_name
             (map (\<lambda>p. \<lparr>u_id = p_id p, u_full_name = p_full_name p, u_email = p_email p,
                        credit_balance = p_credit_balance p\<rparr>) (profiles d))))"

section \<open>The settlement page\<close>

text \<open>
  The state of \<open>SettlementManagementPage\<close> that \<open>handleRecordSettlement\<close> reads or sets:
  the cached user list, the form, and the two flags. The displayed settlement list and the
  loading flags are set by \<open>fetchSettlements\<close> and \<open>fetchUsers\<close> only for rendering; the
  handler never reads them and they are left out.
\<close>

record page =
  users :: "user list"
  formData :: form_data
  showModal :: bool
  saving :: bool

datatype alert =
    PleaseSelectUser
  | InsufficientCredits int
  | ErrorFetchingSettlements
  | ErrorFetchingUsers
  | RecordedSuccessfully
  | ErrorRecording pg_error

definition empty_form :: form_data where
  "empty_form = \<lparr>f_userId = [], f_creditsUsed = 0, f_rewardAmount = 0, f_network = [],
                  f_walletAddress = [], f_transactionHash = [], f_notes = []\<rparr>"

text \<open>
  \<open>fetchSettlements\<close>: it reads the store and sets the displayed list, which is not part of
  the page state kept here; on an error it alerts (it catches its own error).
\<close>

definition fetchSettlements :: "env \<Rightarrow> page \<Rightarrow> db \<Rightarrow> alert list \<times> page" where
  "fetchSettlements env pg d =
     (if e_fault env SettlementsSelect then ([ErrorFetchingSettlements], pg) else ([], pg))"

text \<open>
  \<open>fetchUsers\<close>: on success the cache is replaced by the selected rows; on an error the
  function alerts and keeps the cache (it catches its own error).
\<close>

definition fetchUsers :: "env \<Rightarrow> page \<Rightarrow> db \<Rightarrow> alert list \<times> page" where
  "fetchUsers env pg d =
     (case select_users env d of
        Inl error \<Rightarrow> ([ErrorFetchingUsers], pg)
      | Inr data \<Rightarrow> ([], pg\<lparr>users := data\<rparr>))"

definition settlementPayload :: "string \<Rightarrow> form_data \<Rightarrow> settlement_payload" where
  "settlementPayload settlementId fd =
     \<lparr>s_settlementId = settlementId,
      s_userId = f_userId fd,
      s_creditsUsed = f_creditsUsed fd,
      s_rewardAmount = f_rewardAmount fd,
      s_network = f_network fd,
      s_walletAddress = trim (f_walletAddress fd),
      s_transactionHash = trim_or_null (f_transactionHash fd),
      s_status = Processed,
      s_notes = trim_or_null (f_notes fd)\<rparr>"

definition ledgerPayload :: "string \<Rightarrow> settlement \<Rightarrow> user \<Rightarrow> form_data \<Rightarrow> ledger_entry" where
  "ledgerPayload settlementId stl selectedUser fd =
     \<lparr>l_userId = f_userId fd,
      l_amount = - f_creditsUsed fd,
      l_transaction_type = ''settlement_debit'',
      l_description = ''Digital Asset Reward Settlement - '' @ settlementId,
      l_reference_id = s_id stl,
      l_balance_after = credit_balance selectedUser - f_creditsUsed fd\<rparr>"

definition transferPayload :: "string \<Rightarrow> settlement \<Rightarrow> form_data \<Rightarrow> transfer" where
  "transferPayload settlementId stl fd =
     \<lparr>t_userId = f_userId fd,
      t_settlementId = s_id stl,
      t_nilaAmount = f_rewardAmount fd,
      t_network = f_network fd,
      t_walletAddress = trim (f_walletAddress fd),
      t_transactionHash = trim_or_null (f_transactionHash fd),
      t_status = Completed,
      t_transferType = ''settlement_reward'',
      t_notes = ''Digital Asset Reward Settlement - '' @ settlementId\<rparr>"

text \<open>
  The store calls of \<open>handleRecordSettlement\<close> after validation, in the order of the
  source. Each \<open>if (error) throw error\<close> leaves the \<open>try\<close> block with the store as it is
  at that point: \<open>Inl\<close> is the thrown error, \<open>Inr\<close> the inserted settlement row.
\<close>

definition settlement_writes :: "env \<Rightarrow> user \<Rightarrow> form_data \<Rightarrow> db \<Rightarrow> (pg_error + settlement) \<times> db" where
  "settlement_writes env selectedUser fd d =
     (let settlementId = generateSettlementId (e_now env) (e_random env) in
      case insert_settlement env (settlementPayload settlementId fd) d of
        (Inl settlementError, d1) \<Rightarrow> (Inl settlementError, d1)
      | (Inr stl, d1) \<Rightarrow>
          (case insert_ledger env (ledgerPayload settlementId stl selectedUser fd) d1 of
             (Some ledgerError, d2) \<Rightarrow> (Inl ledgerError, d2)
           | (None, d2) \<Rightarrow>
               (case update_credit_balance env (f_userId fd)
                       (credit_balance selectedUser - f_creditsUsed fd) (e_iso env) d2 of
                  (Some updateError, d3) \<Rightarrow> (Inl updateError, d3)
                | (None, d3) \<Rightarrow>
                    (case insert_transfer env (transferPayload settlementId stl fd) d3 of
                       (Some transferError, d4) \<Rightarrow> (Inl transferError, d4)
                     | (None, d4) \<Rightarrow> (Inr stl, d4)))))"

text \<open>
  \<open>handleRecordSettlement\<close>: the alerts shown (in order), the page state and the store
  after the handler has run. The \<open>catch\<close> block only logs and alerts; the \<open>finally\<close> block
  clears \<open>saving\<close> on every path.
\<close>

definition handleRecordSettlement :: "env \<Rightarrow> page \<Rightarrow> db \<Rightarrow> alert list \<times> page \<times> db" where
  "handleRecordSettlement env pg d =
     (let pg1 = pg\<lparr>saving := True\<rparr> in
      case find (\<lambda>u. u_id u = f_userId (formData pg)) (users pg) of
        None \<Rightarrow> ([PleaseSelectUser], pg1\<lparr>saving := False\<rparr>, d)
      | Some selectedUser \<Rightarrow>
          if f_creditsUsed (formData pg) > credit_balance selectedUser
          then ([InsufficientCredits (credit_balance selectedUser)], pg1\<lparr>saving := False\<rparr>, d)
          else
            (case settlement_writes env selectedUser (formData pg) d of
               (Inl error, d') \<Rightarrow> ([ErrorRecording error], pg1\<lparr>saving := False\<rparr>, d')
             | (Inr stl, d') \<Rightarrow>
                 (let pg2 = pg1\<lparr>formData := empty_form, showModal := False\<rparr>;
                      (alerts1, pg3) = fetchSettlements env pg2 d';
                      (alerts2, pg4) = fetchUsers env pg3 d'
                  in (alerts1 @ alerts2 @ [RecordedSuccessfully], pg4\<lparr>saving := False\<rparr>, d'))))"

text \<open>The components of the handler's result, and the user the handler selects.\<close>

definition alerts_shown :: "env \<Rightarrow> page \<Rightarrow> db \<Rightarrow> alert list" where
  "alerts_shown env pg d = fst (handleRecordSettlement env pg d)"

definition store_after :: "env \<Rightarrow> page \<Rightarrow> db \<Rightarrow> db" where
  "store_after env pg d = snd (snd (handleRecordSettlement env pg d))"

definition selected_user :: "page \<Rightarrow> user option" where
  "selected_user pg = find (\<lambda>u. u_id u = f_userId (formData pg)) (users pg)"

text \<open>
  The first of the three writes after the settlement insert that meets a store fault.
\<close>

definition first_fault :: "env \<Rightarrow> store_call option" where
  "first_fault env =
     (if e_fault env LedgerInsert then Some LedgerInsert
      else if e_fault env ProfileUpdate then Some ProfileUpdate
      else if e_fault env TransferInsert then Some TransferInsert
      else None)"

section \<open>Concrete scenarios\<close>

text \<open>
  The environments, pages and stores at which the theorems below are instantiated: one user
  \<open>u1\<close>, a request with reward 10 on polygon to wallet 0xabc, a cached balance and a
  stored balance.
\<close>

definition no_faults :: "store_call \<Rightarrow> bool" where
  "no_faults c = False"

definition fault_at :: "store_call \<Rightarrow> store_call \<Rightarrow> bool" where
  "fault_at c c' = (c' = c)"

definition scenario_env :: "(store_call \<Rightarrow> bool) \<Rightarrow> env" where
  "scenario_env faults =
     \<lparr>e_now = 1700000000000, e_random = ''0.k3x9q2abc'', e_iso = ''2023-11-14T22:13:20.000Z'',
      e_row_id = ''5f0c'', e_store_now = ''2023-11-14 22:13:20+00'', e_fault = faults\<rparr>"

definition scenario_page :: "int \<Rightarrow> int \<Rightarrow> page" where
  "scenario_page balance credits =
     \<lparr>users = [\<lparr>u_id = ''u1'', u_full_name = ''Ada'', u_email = ''ada@example.org'',
                 credit_balance = balance\<rparr>],
      formData = \<lparr>f_userId = ''u1'', f_creditsUsed = credits, f_rewardAmount = 10,
                  f_network = ''polygon'', f_walletAddress = ''0xabc'', f_transactionHash = [],
                  f_notes = []\<rparr>,
      showModal = True, saving = False\<rparr>"

definition scenario_db :: "int \<Rightarrow> db" where
  "scenario_db balance =
     \<lparr>settlements = [], credit_ledger = [],
      profiles = [\<lparr>p_id = ''u1'', p_full_name = ''Ada'', p_email = ''ada@example.org'',
                   p_credit_balance = balance, p_updated_at = ''2023-11-01T00:00:00.000Z''\<rparr>],
      nila_transfers = []\<rparr>"

section \<open>Requests in flight at the same time\<close>

text \<open>
  Every \<open>await\<close> on a store call is a point where another request (from another page with
  its own cached user list) may run. A request is what the handler has captured when it
  starts: its environment, its cached users and its form. A phase is the store call the
  handler is waiting to issue; \<open>step\<close> issues exactly one store call. Validation reads the
  cache only and is part of the first step.
\<close>

record client =
  c_env :: env
  c_users :: "user list"
  c_form :: form_data

datatype phase =
    AtSettlementInsert
  | AtLedgerInsert user settlement
  | AtProfileUpdate user settlement
  | AtTransferInsert user settlement
  | Returned alert

definition step :: "client \<Rightarrow> phase \<Rightarrow> db \<Rightarrow> phase \<times> db" where
  "step c ph d =
     (let env = c_env c; fd = c_form c;
          settlementId = generateSettlementId (e_now env) (e_random env) in
      case ph of
        AtSettlementInsert \<Rightarrow>
          (case find (\<lambda>u. u_id u = f_userId fd) (c_users c) of
             None \<Rightarrow> (Returned PleaseSelectUser, d)
           | Some selectedUser \<Rightarrow>
               if f_creditsUsed fd > credit_balance selectedUser
               then (Returned (InsufficientCredits (credit_balance selectedUser)), d)
               else
                 (case insert_settlement env (settlementPayload settlementId fd) d of
                    (Inl settlementError, d1) \<Rightarrow> (Returned (ErrorRecording settlementError), d1)
                  | (Inr stl, d1) \<Rightarrow> (AtLedgerInsert selectedUser stl, d1)))
      | AtLedgerInsert selectedUser stl \<Rightarrow>
          (case insert_ledger env (ledgerPayload settlementId stl selectedUser fd) d of
             (Some ledgerError, d2) \<Rightarrow> (Returned (ErrorRecording ledgerError), d2)
           | (None, d2) \<Rightarrow> (AtProfileUpdate selectedUser stl, d2))
      | AtProfileUpdate selectedUser stl \<Rightarrow>
          (case update_credit_balance env (f_userId fd)
                  (credit_balance selectedUser - f_creditsUsed fd) (e_iso env) d of
             (Some updateError, d3) \<Rightarrow> (Returned (ErrorRecording updateError), d3)
           | (None, d3) \<Rightarrow> (AtTransferInsert selectedUser stl, d3))
      | AtTransferInsert selectedUser stl \<Rightarrow>
          (case insert_transfer env (transferPayload settlementId stl fd) d of
             (Some transferError, d4) \<Rightarrow> (Returned (ErrorRecording transferError), d4)
           | (None, d4) \<Rightarrow> (Returned RecordedSuccessfully, d4))
      | Returned a \<Rightarrow> (Returned a, d))"

text \<open>
  Two requests on one store. The schedule says whose store call is served next
  (\<open>True\<close>: the first request, \<open>False\<close>: the second).
\<close>

fun interleave :: "bool list \<Rightarrow> client \<Rightarrow> client \<Rightarrow> phase \<times> phase \<times> db \<Rightarrow> phase \<times> phase \<times> db" where
  "interleave [] a b s = s"
| "interleave (True # sch) a b (pa, pb, d) =
     (case step a pa d of (pa', d') \<Rightarrow> interleave sch a b (pa', pb, d'))"
| "interleave (False # sch) a b (pa, pb, d) =
     (case step b pb d of (pb', d') \<Rightarrow> interleave sch a b (pa, pb', d'))"

text \<open>The request that a run of the handler on a page amounts to.\<close>

definition client_of :: "env \<Rightarrow> page \<Rightarrow> client" where
  "client_of env pg = \<lparr>c_env = env, c_users = users pg, c_form = formData pg\<rparr>"

text \<open>The balance a user has in the store (the first row with that id).\<close>

definition stored_balance :: "db \<Rightarrow> string \<Rightarrow> int option" where
  "stored_balance d userId =
     map_option p_credit_balance (find (\<lambda>p. p_id p = userId) (profiles d))"

text \<open>A second page with its own clock and random source, and a schedule that alternates.\<close>

definition second_env :: "(store_call \<Rightarrow> bool) \<Rightarrow> env" where
  "second_env faults =
     \<lparr>e_now = 1700000000007, e_random = ''0.9zt41mwq'', e_iso = ''2023-11-14T22:13:20.007Z'',
      e_row_id = ''9b2e'', e_store_now = ''2023-11-14 22:13:20.01+00'', e_fault = faults\<rparr>"

definition alternating :: "bool list" where
  "alternating = [True, False, True, False, True, False, True, False]"

definition two_requests :: "int \<Rightarrow> int \<Rightarrow> bool list \<Rightarrow> phase \<times> phase \<times> db" where
  "two_requests balance credits sch =
     interleave sch (client_of (scenario_env no_faults) (scenario_page balance credits))
       (client_of (second_env no_faults) (scenario_page balance credits))
       (AtSettlementInsert, AtSettlementInsert, scenario_db balance)"

text \<open>
  What a request writes when nothing stops it: its settlement row, its ledger entry and its
  transfer, and the phase it is in after \<open>n\<close> of its store calls were served.
\<close>

definition settlementId_of :: "client \<Rightarrow> string" where
  "settlementId_of c = generateSettlementId (e_now (c_env c)) (e_random (c_env c))"

definition row_of :: "client \<Rightarrow> settlement" where
  "row_of c = stored_row (c_env c) (settlementPayload (settlementId_of c) (c_form c))"

definition entry_of :: "client \<Rightarrow> user \<Rightarrow> ledger_entry" where
  "entry_of c u = ledgerPayload (settlementId_of c) (row_of c) u (c_form c)"

definition transfer_of :: "client \<Rightarrow> transfer" where
  "transfer_of c = transferPayload (settlementId_of c) (row_of c) (c_form c)"

definition phase_at :: "client \<Rightarrow> user \<Rightarrow> nat \<Rightarrow> phase" where
  "phase_at c u n =
     (if n = 0 then AtSettlementInsert
      else if n = 1 then AtLedgerInsert u (row_of c)
      else if n = 2 then AtProfileUpdate u (row_of c)
      else if n = 3 then AtTransferInsert u (row_of c)
      else Returned RecordedSuccessfully)"

text \<open>
  A request passes when its user is in the cache of its page, its creditsUsed does not
  exceed the cached balance, and none of its four writes meets a store fault.
\<close>

definition passes :: "client \<Rightarrow> user \<Rightarrow> bool" where
  "passes c u =
     (find (\<lambda>u. u_id u = f_userId (c_form c)) (c_users c) = Some u
      \<and> f_creditsUsed (c_form c) \<le> credit_balance u
      \<and> \<not> e_fault (c_env c) SettlementInsert \<and> \<not> e_fault (c_env c) LedgerInsert
      \<and> \<not> e_fault (c_env c) ProfileUpdate \<and> \<not> e_fault (c_env c) TransferInsert)"

text \<open>
  The invariant of two passing requests for the same user on a store that started as
  \<open>d0\<close>, the first having had \<open>i\<close> store calls served and the second \<open>j\<close>.
\<close>

definition written :: "nat \<Rightarrow> nat \<Rightarrow> 'a \<Rightarrow> 'a multiset" where
  "written k n x = (if k \<le> n then {#x#} else {#})"

definition balances_written :: "client \<Rightarrow> user \<Rightarrow> nat \<Rightarrow> int set" where
  "balances_written c u n = (if 3 \<le> n then {credit_balance u - f_creditsUsed (c_form c)} else {})"

definition in_flight_inv :: "client \<Rightarrow> client \<Rightarrow> user \<Rightarrow> user \<Rightarrow> db \<Rightarrow> nat \<Rightarrow> nat \<Rightarrow> phase \<times> phase \<times> db \<Rightarrow> bool" where
  "in_flight_inv a b ua ub d0 i j s =
     (case s of (pa, pb, d) \<Rightarrow>
        pa = phase_at a ua i \<and> pb = phase_at b ub j
      \<and> mset (settlements d) = mset (settlements d0) + written 1 i (row_of a) + written 1 j (row_of b)
      \<and> mset (credit_ledger d) = mset (credit_ledger d0) + written 2 i (entry_of a ua) + written 2 j (entry_of b ub)
      \<and> mset (nila_transfers d) = mset (nila_transfers d0) + written 4 i (transfer_of a) + written 4 j (transfer_of b)
      \<and> map p_id (profiles d) = map p_id (profiles d0)
      \<and> (\<forall>p \<in> set (profiles d). p_id p \<noteq> f_userId (c_form a) \<longrightarrow> p \<in> set (profiles d0))
      \<and> (3 \<le> i \<or> 3 \<le> j \<longrightarrow>
           (\<forall>p \<in> set (profiles d). p_id p = f_userId (c_form a) \<longrightarrow>
              p_credit_balance p \<in> balances_written a ua i \<union> balances_written b ub j)))"

section \<open>The rate lookup\<close>

text \<open>
  A number read from a parsed JSON body: a finite value or, for a literal beyond the range
  of a double such as \<open>1e999\<close>, an infinity (\<open>JSON.parse\<close> yields no NaN). Finite values are
  only compared with zero and passed on, never computed with; they are modelled as \<open>real\<close>.
\<close>

datatype number = Finite real | PosInfinity | NegInfinity

text \<open>\<open>x > 0\<close>, \<open>x <= 0\<close> and \<open>!x\<close> on such numbers.\<close>

fun gt_zero :: "number \<Rightarrow> bool" where
  "gt_zero (Finite r) = (0 < r)"
| "gt_zero PosInfinity = True"
| "gt_zero NegInfinity = False"

fun le_zero :: "number \<Rightarrow> bool" where
  "le_zero (Finite r) = (r \<le> 0)"
| "le_zero PosInfinity = False"
| "le_zero NegInfinity = True"

fun falsy :: "number \<Rightarrow> bool" where
  "falsy (Finite r) = (r = 0)"
| "falsy PosInfinity = False"
| "falsy NegInfinity = False"

text \<open>A parsed JSON value. An object is the list of its own properties.\<close>

datatype json = JNull | JBool bool | JNum number | JStr string | JArr "json list"
  | JObj "(string \<times> json) list"

text \<open>A JavaScript value read from a parsed body: \<open>undefined\<close> or a JSON value.\<close>

datatype jsval = Undefined | Val json

text \<open>\<open>v?.key\<close> for the keys \<open>nila\<close> and \<open>usd\<close>: only objects have such a property.\<close>

fun opt_prop :: "jsval \<Rightarrow> string \<Rightarrow> jsval" where
  "opt_prop (Val (JObj kvs)) key = (case map_of kvs key of None \<Rightarrow> Undefined | Some v \<Rightarrow> Val v)"
| "opt_prop v key = Undefined"

text \<open>
  The outcome of \<open>fetch\<close>: \<open>None\<close> when the promise rejects. The body of a response is
  \<open>None\<close> when \<open>res.json()\<close> rejects.
\<close>

record response =
  r_ok :: bool
  r_body :: "json option"

datatype fetch_error = NetworkError | SyntaxError

record rate_env =
  backendEndpoint :: "string option"
  backend_fetch :: "response option"
  coingecko_fetch :: "response option"

definition FALLBACK_RATE :: number where
  "FALLBACK_RATE = Finite (1234 / 100000)"

text \<open>
  The inner \<open>try\<close> block of \<open>fetchNilaRate\<close> (the backend proxy): \<open>Inr (Some rate)\<close> is
  \<open>return rate\<close>, \<open>Inr None\<close> falls out of the block, \<open>Inl\<close> is a thrown error.
\<close>

definition backend_try :: "rate_env \<Rightarrow> fetch_error + number option" where
  "backend_try e =
     (case backend_fetch e of
        None \<Rightarrow> Inl NetworkError
      | Some res \<Rightarrow>
          if r_ok res then
            (case r_body res of
               None \<Rightarrow> Inl SyntaxError
             | Some j \<Rightarrow>
                 (case opt_prop (Val j) ''nila'' of
                    Val (JNum rate) \<Rightarrow> if gt_zero rate then Inr (Some rate) else Inr None
                  | _ \<Rightarrow> Inr None))
          else Inr None)"

text \<open>
  \<open>typeof nila === "number" ? nila : typeof nila?.usd === "number" ? nila.usd : null\<close>;
  \<open>None\<close> is \<open>null\<close>.
\<close>

definition extract_rate :: "jsval \<Rightarrow> number option" where
  "extract_rate nila =
     (case nila of
        Val (JNum n) \<Rightarrow> Some n
      | _ \<Rightarrow> (case opt_prop nila ''usd'' of Val (JNum n) \<Rightarrow> Some n | _ \<Rightarrow> None))"

text \<open>The outer \<open>try\<close> block: \<open>Inl\<close> is an error that reaches the outer \<open>catch\<close>.\<close>

definition rate_try :: "rate_env \<Rightarrow> fetch_error + number" where
  "rate_try e =
     (let from_backend =
            (case backendEndpoint e of
               None \<Rightarrow> None
             | Some endpoint \<Rightarrow>
                 if endpoint = [] then None
                 else (case backend_try e of Inl proxyErr \<Rightarrow> None | Inr r \<Rightarrow> r))
      in case from_backend of
           Some rate \<Rightarrow> Inr rate
         | None \<Rightarrow>
             (case coingecko_fetch e of
                None \<Rightarrow> Inl NetworkError
              | Some res \<Rightarrow>
                  if r_ok res then
                    (case r_body res of
                       None \<Rightarrow> Inl SyntaxError
                     | Some j \<Rightarrow>
                         (case extract_rate (opt_prop (Val j) ''nila'') of
                            Some rate \<Rightarrow>
                              if \<not> falsy rate \<and> gt_zero rate then Inr rate else Inr FALLBACK_RATE
                          | None \<Rightarrow> Inr FALLBACK_RATE))
                  else Inr FALLBACK_RATE))"

definition fetchNilaRate :: "rate_env \<Rightarrow> number" where
  "fetchNilaRate e = (case rate_try e of Inl err \<Rightarrow> FALLBACK_RATE | Inr rate \<Rightarrow> rate)"

text \<open>
  The \<open>nila-rate\<close> edge function, which is what a configured backend endpoint serves. Its
  reply is a status code and, for a JSON reply, the value its text parses to. Every failure
  of the upstream request is caught by the inner \<open>catch\<close>; the outer \<open>catch\<close> (status 500)
  guards only the test of the method, which does not throw.
\<close>

datatype http_method = GET | POST | PUT | DELETE | OtherMethod

record reply =
  status_code :: nat
  reply_body :: "json option"

definition json_reply :: "nat \<Rightarrow> json \<Rightarrow> reply" where
  "json_reply code j = \<lparr>status_code = code, reply_body = Some j\<rparr>"

text \<open>
  \<open>JSON.stringify({ nila: rate })\<close>, as the value the written text parses to: a finite number
  is written as it is, a non-finite number is written as \<open>null\<close>.
\<close>

definition stringify_nila :: "number \<Rightarrow> json" where
  "stringify_nila rate =
     JObj [(''nila'', (case rate of Finite r \<Rightarrow> JNum (Finite r) | _ \<Rightarrow> JNull))]"

definition serve :: "http_method \<Rightarrow> response option \<Rightarrow> reply" where
  "serve method upstream =
     (if method \<noteq> GET then \<lparr>status_code = 405, reply_body = None\<rparr>
      else
        (case upstream of
           None \<Rightarrow> json_reply 200 (stringify_nila FALLBACK_RATE)
         | Some res \<Rightarrow>
             if \<not> r_ok res then json_reply 200 (stringify_nila FALLBACK_RATE)
             else
               (case r_body res of
                  None \<Rightarrow> json_reply 200 (stringify_nila FALLBACK_RATE)
                | Some j \<Rightarrow>
                    (case extract_rate (opt_prop (Val j) ''nila'') of
                       None \<Rightarrow> json_reply 200 (stringify_nila FALLBACK_RATE)
                     | Some rate \<Rightarrow>
                         if falsy rate \<or> le_zero rate
                         then json_reply 200 (stringify_nila FALLBACK_RATE)
                         else json_reply 200 (stringify_nila rate)))))"

text \<open>What the page receives when its backend endpoint is this edge function.\<close>

definition as_response :: "reply \<Rightarrow> response" where
  "as_response r = \<lparr>r_ok = (200 \<le> status_code r \<and> status_code r \<le> 299), r_body = reply_body r\<rparr>"

text \<open>
  The condition of the fallback, stated on the replies rather than on the code: the rate an
  upstream source offers is the number its reply carries as \<open>nila\<close> or as \<open>nila.usd\<close>,
  when the reply arrived, is ok and parses as a JSON object. A source has no valid rate
  when it offers none or one that is not above zero. The backend is unused when no endpoint
  is configured.
\<close>

definition offered_rate :: "response option \<Rightarrow> number option" where
  "offered_rate r =
     (case r of
        None \<Rightarrow> None
      | Some res \<Rightarrow>
          if \<not> r_ok res then None
          else
            (case r_body res of
               Some (JObj kvs) \<Rightarrow>
                 (case map_of kvs ''nila'' of
                    Some (JNum x) \<Rightarrow> Some x
                  | Some (JObj kvs') \<Rightarrow>
                      (case map_of kvs' ''usd'' of Some (JNum x) \<Rightarrow> Some x | _ \<Rightarrow> None)
                  | _ \<Rightarrow> None)
             | _ \<Rightarrow> None))"

definition no_valid_rate :: "response option \<Rightarrow> bool" where
  "no_valid_rate r = (case offered_rate r of None \<Rightarrow> True | Some x \<Rightarrow> \<not> gt_zero x)"

definition backend_unused :: "rate_env \<Rightarrow> bool" where
  "backend_unused e = (backendEndpoint e = None \<or> backendEndpoint e = Some [])"

text \<open>
  A reply of the public API whose rate is a literal beyond the range of a double, such as
  \<open>{"nila": 1e999}\<close>, and a page that has no backend endpoint and receives it.
\<close>

definition overflowing_reply :: response where
  "overflowing_reply = \<lparr>r_ok = True, r_body = Some (JObj [(''nila'', JNum PosInfinity)])\<rparr>"

definition rate_env_overflow :: rate_env where
  "rate_env_overflow =
     \<lparr>backendEndpoint = None, backend_fetch = None, coingecko_fetch = Some overflowing_reply\<rparr>"

text \<open>The same reply of the public API, for a page whose backend endpoint is the edge function.\<close>

definition rate_env_behind_edge :: rate_env where
  "rate_env_behind_edge =
     \<lparr>backendEndpoint = Some ''https://example.org/functions/v1/nila-rate'',
      backend_fetch = Some (as_response (serve GET (Some overflowing_reply))),
      coingecko_fetch = Some overflowing_reply\<rparr>"

section \<open>Auxiliary facts\<close>

lemmas handler_defs = handleRecordSettlement_def settlement_writes_def insert_settlement_def
  stored_row_def
  insert_ledger_def update_credit_balance_def insert_transfer_def alerts_shown_def store_after_def
  selected_user_def fetchSettlements_def fetchUsers_def select_users_def

text \<open>The trimmed fields of the scenario form.\<close>

lemma trim_wallet: "trim ''0xabc'' = ''0xabc''"
  by (simp add: trim_def strip.simps white_space_def)

lemma trim_empty: "trim [] = []"
  by (simp add: trim_def strip.simps white_space_def)

lemmas scenario_defs = scenario_env_def scenario_page_def scenario_db_def no_faults_def fault_at_def
  settlementPayload_def ledgerPayload_def transferPayload_def stored_balance_def
  trim_or_null_def trim_wallet trim_empty Let_def

text \<open>The settlementIds generated in the two scenario environments.\<close>

lemma first_id: "generateSettlementId 1700000000000 ''0.k3x9q2abc'' = ''STL_1700000000000_K3X9Q2''"
  by (simp add: generateSettlementId_def toUpperCase_def upper_char_def substring_def decimal.simps)

lemma second_id: "generateSettlementId 1700000000007 ''0.9zt41mwq'' = ''STL_1700000000007_9ZT41M''"
  by (simp add: generateSettlementId_def toUpperCase_def upper_char_def substring_def decimal.simps)

lemma find_map_balance:
  "find (\<lambda>p. p_id p = uid) (map (\<lambda>p. if p_id p = uid then p\<lparr>p_credit_balance := b, p_updated_at := t\<rparr> else p) ps)
     = map_option (\<lambda>p. p\<lparr>p_credit_balance := b, p_updated_at := t\<rparr>) (find (\<lambda>p. p_id p = uid) ps)"
  by (induction ps) auto

text \<open>
  C3 as stated fails: the balance the handler validates against is the one its page has
  cached, not the user's current balance. Here the store holds 100, the page still shows
  500, and a request of 150 credits is recorded: a processed settlement, a ledger entry, a
  completed transfer, and the stored balance set to 350.
\<close>
theorem stale_cache_request_is_recorded_counterexample:
  "stored_balance (scenario_db 100) ''u1'' = Some 100
   \<and> f_creditsUsed (formData (scenario_page 500 150)) = 150
   \<and> alerts_shown (scenario_env no_faults) (scenario_page 500 150) (scenario_db 100)
        = [RecordedSuccessfully]
   \<and> map s_status (settlements (store_after (scenario_env no_faults) (scenario_page 500 150)
        (scenario_db 100))) = [Processed]
   \<and> map l_amount (credit_ledger (store_after (scenario_env no_faults) (scenario_page 500 150)
        (scenario_db 100))) = [- 150]
   \<and> map t_status (nila_transfers (store_after (scenario_env no_faults) (scenario_page 500 150)
        (scenario_db 100))) = [Completed]
   \<and> stored_balance (store_after (scenario_env no_faults) (scenario_page 500 150)
        (scenario_db 100)) ''u1'' = Some 350"
  by (simp add: handler_defs scenario_defs)

text \<open>
  C3, amended. A request whose creditsUsed exceeds the balance that the page has cached for
  the selected user is rejected in validation with the insufficient-credits alert, and the
  store is left exactly as it was: no settlement row, no ledger entry, no balance change,
  no transfer row.
\<close>
theorem insufficient_credits_rejected:
  assumes "selected_user pg = Some selectedUser"
    and "f_creditsUsed (formData pg) > credit_balance selectedUser"
  shows "alerts_shown env pg d = [InsufficientCredits (credit_balance selectedUser)]
         \<and> store_after env pg d = d"
  using assms by (simp add: handler_defs)

theorem insufficient_credits_rejected_witness:
  "selected_user (scenario_page 100 150) = Some (hd (users (scenario_page 100 150)))
   \<and> f_creditsUsed (formData (scenario_page 100 150)) > credit_balance (hd (users (scenario_page 100 150)))
   \<and> alerts_shown (scenario_env no_faults) (scenario_page 100 150) (scenario_db 100) = [InsufficientCredits 100]
   \<and> store_after (scenario_env no_faults) (scenario_page 100 150) (scenario_db 100) = scenario_db 100"
proof -
  have sel: "selected_user (scenario_page 100 150) = Some (hd (users (scenario_page 100 150)))"
    by (simp add: selected_user_def scenario_page_def)
  have gt: "f_creditsUsed (formData (scenario_page 100 150)) > credit_balance (hd (users (scenario_page 100 150)))"
    by (simp add: scenario_page_def)
  show ?thesis
    using insufficient_credits_rejected [OF sel gt, of "scenario_env no_faults" "scenario_db 100"] sel gt
    by (simp add: scenario_page_def)
qed

text \<open>
  C4 as stated fails: B is the balance the page has cached, not the user's current balance.
  Here the store holds 400, the page still shows 500, and a successful request of 200
  credits writes balance_after 300 and sets the stored balance to 300, not to 400 - 200.
\<close>
theorem stale_cache_balance_after_counterexample:
  "stored_balance (scenario_db 400) ''u1'' = Some 400
   \<and> alerts_shown (scenario_env no_faults) (scenario_page 500 200) (scenario_db 400)
        = [RecordedSuccessfully]
   \<and> map l_amount (credit_ledger (store_after (scenario_env no_faults) (scenario_page 500 200)
        (scenario_db 400))) = [- 200]
   \<and> map l_balance_after (credit_ledger (store_after (scenario_env no_faults)
        (scenario_page 500 200) (scenario_db 400))) = [300]
   \<and> stored_balance (store_after (scenario_env no_faults) (scenario_page 500 200)
        (scenario_db 400)) ''u1'' = Some 300"
  by (simp add: handler_defs scenario_defs)

text \<open>
  C4, amended. When the handler reports success for a request with creditsUsed C, B being
  the balance that the page has cached for the selected user, then C \<le> B, exactly one
  ledger entry was appended, with amount -C and balance_after B - C, the stored balance of
  the user is B - C, and exactly one transfer was appended, with status completed. At
  B = 500, C = 200: amount -200, balance_after 300, balance 300.
\<close>
theorem successful_settlement_records:
  assumes "selected_user pg = Some selectedUser"
    and "RecordedSuccessfully \<in> set (alerts_shown env pg d)"
  shows "f_creditsUsed (formData pg) \<le> credit_balance selectedUser \<and>
         (\<exists>e t. credit_ledger (store_after env pg d) = credit_ledger d @ [e]
             \<and> l_amount e = - f_creditsUsed (formData pg)
             \<and> l_balance_after e = credit_balance selectedUser - f_creditsUsed (formData pg)
             \<and> nila_transfers (store_after env pg d) = nila_transfers d @ [t]
             \<and> t_status t = Completed)
         \<and> (stored_balance d (f_userId (formData pg)) \<noteq> None \<longrightarrow>
              stored_balance (store_after env pg d) (f_userId (formData pg))
                = Some (credit_balance selectedUser - f_creditsUsed (formData pg)))"
  using assms
  by (auto simp: handler_defs Let_def ledgerPayload_def transferPayload_def stored_balance_def find_map_balance
      split: if_splits prod.splits sum.splits option.splits)

theorem successful_settlement_records_witness:
  "selected_user (scenario_page 500 200) = Some (hd (users (scenario_page 500 200)))
   \<and> RecordedSuccessfully \<in> set (alerts_shown (scenario_env no_faults) (scenario_page 500 200) (scenario_db 500))
   \<and> map l_amount (credit_ledger (store_after (scenario_env no_faults) (scenario_page 500 200) (scenario_db 500))) = [- 200]
   \<and> map l_balance_after (credit_ledger (store_after (scenario_env no_faults) (scenario_page 500 200) (scenario_db 500))) = [300]
   \<and> map t_status (nila_transfers (store_after (scenario_env no_faults) (scenario_page 500 200) (scenario_db 500))) = [Completed]
   \<and> map s_status (settlements (store_after (scenario_env no_faults) (scenario_page 500 200) (scenario_db 500))) = [Processed]
   \<and> stored_balance (store_after (scenario_env no_faults) (scenario_page 500 200) (scenario_db 500)) ''u1'' = Some 300"
proof -
  have sel: "selected_user (scenario_page 500 200) = Some (hd (users (scenario_page 500 200)))"
    by (simp add: selected_user_def scenario_page_def)
  have ok: "RecordedSuccessfully \<in> set (alerts_shown (scenario_env no_faults) (scenario_page 500 200) (scenario_db 500))"
    by (simp add: handler_defs scenario_defs)
  have st: "map s_status (settlements (store_after (scenario_env no_faults) (scenario_page 500 200) (scenario_db 500))) = [Processed]"
    by (simp add: handler_defs scenario_defs)
  have sb: "stored_balance (scenario_db 500) ''u1'' \<noteq> None"
    by (simp add: scenario_defs)
  show ?thesis
    using successful_settlement_records [OF sel ok] sel ok st sb
    by (auto simp: scenario_page_def scenario_db_def)
qed

text \<open>
  C5 as stated fails: the balance the handler validates against is the one its page has
  cached. Here the store holds 200, the page still shows 100, and a request of exactly 200
  credits is rejected as insufficient; nothing is written.
\<close>
theorem exact_stored_balance_is_rejected_counterexample:
  "stored_balance (scenario_db 200) ''u1'' = Some 200
   \<and> f_creditsUsed (formData (scenario_page 100 200)) = 200
   \<and> alerts_shown (scenario_env no_faults) (scenario_page 100 200) (scenario_db 200)
        = [InsufficientCredits 100]
   \<and> store_after (scenario_env no_faults) (scenario_page 100 200) (scenario_db 200)
        = scenario_db 200"
  by (simp add: handler_defs scenario_defs)

text \<open>
  C5, amended. A request whose creditsUsed equals the balance that the page has cached for
  the selected user is not rejected by validation, whatever the store does; and when no
  store call fails and the generated settlementId is new, the settlement completes: it is
  reported as recorded, the settlement row is stored with status processed, the ledger
  entry has amount -creditsUsed and balance_after 0 and refers to that row, the stored
  balance is 0, and a completed transfer referring to that row is stored.
\<close>

theorem exact_balance_is_accepted:
  assumes "selected_user pg = Some selectedUser"
    and "f_creditsUsed (formData pg) = credit_balance selectedUser"
  shows "(\<forall>b. InsufficientCredits b \<notin> set (alerts_shown env pg d))
         \<and> PleaseSelectUser \<notin> set (alerts_shown env pg d)
         \<and> (\<not> e_fault env SettlementInsert \<and> \<not> e_fault env LedgerInsert
              \<and> \<not> e_fault env ProfileUpdate \<and> \<not> e_fault env TransferInsert
              \<and> generateSettlementId (e_now env) (e_random env) \<notin> set (map s_settlementId (settlements d))
            \<longrightarrow> RecordedSuccessfully \<in> set (alerts_shown env pg d)
                \<and> (\<exists>stl e t. settlements (store_after env pg d) = settlements d @ [stl]
                      \<and> s_status stl = Processed
                      \<and> s_creditsUsed stl = f_creditsUsed (formData pg)
                      \<and> credit_ledger (store_after env pg d) = credit_ledger d @ [e]
                      \<and> l_amount e = - f_creditsUsed (formData pg)
                      \<and> l_balance_after e = 0
                      \<and> l_reference_id e = s_id stl
                      \<and> nila_transfers (store_after env pg d) = nila_transfers d @ [t]
                      \<and> t_status t = Completed
                      \<and> t_settlementId t = s_id stl
                      \<and> t_nilaAmount t = f_rewardAmount (formData pg))
                \<and> (stored_balance d (f_userId (formData pg)) \<noteq> None \<longrightarrow>
                     stored_balance (store_after env pg d) (f_userId (formData pg)) = Some 0))"
  using assms
  by (auto simp: handler_defs Let_def ledgerPayload_def settlementPayload_def transferPayload_def
        stored_balance_def find_map_balance
      split: if_splits prod.splits sum.splits option.splits)

theorem exact_balance_is_accepted_witness:
  "selected_user (scenario_page 200 200) = Some (hd (users (scenario_page 200 200)))
   \<and> f_creditsUsed (formData (scenario_page 200 200)) = credit_balance (hd (users (scenario_page 200 200)))
   \<and> RecordedSuccessfully \<in> set (alerts_shown (scenario_env no_faults) (scenario_page 200 200) (scenario_db 200))
   \<and> map s_status (settlements (store_after (scenario_env no_faults) (scenario_page 200 200) (scenario_db 200))) = [Processed]
   \<and> map l_amount (credit_ledger (store_after (scenario_env no_faults) (scenario_page 200 200) (scenario_db 200))) = [- 200]
   \<and> map l_balance_after (credit_ledger (store_after (scenario_env no_faults) (scenario_page 200 200) (scenario_db 200))) = [0]
   \<and> map t_status (nila_transfers (store_after (scenario_env no_faults) (scenario_page 200 200) (scenario_db 200))) = [Completed]
   \<and> stored_balance (store_after (scenario_env no_faults) (scenario_page 200 200) (scenario_db 200)) ''u1'' = Some 0"
proof -
  have sel: "selected_user (scenario_page 200 200) = Some (hd (users (scenario_page 200 200)))"
    by (simp add: selected_user_def scenario_page_def)
  have eq: "f_creditsUsed (formData (scenario_page 200 200)) = credit_balance (hd (users (scenario_page 200 200)))"
    by (simp add: scenario_page_def)
  have quiet: "\<not> e_fault (scenario_env no_faults) SettlementInsert \<and> \<not> e_fault (scenario_env no_faults) LedgerInsert
     \<and> \<not> e_fault (scenario_env no_faults) ProfileUpdate \<and> \<not> e_fault (scenario_env no_faults) TransferInsert
     \<and> generateSettlementId (e_now (scenario_env no_faults)) (e_random (scenario_env no_faults))
          \<notin> set (map s_settlementId (settlements (scenario_db 200)))"
    by (simp add: scenario_env_def scenario_db_def no_faults_def)
  have sb: "stored_balance (scenario_db 200) ''u1'' \<noteq> None"
    by (simp add: scenario_defs)
  show ?thesis
    using exact_balance_is_accepted [OF sel eq, of "scenario_env no_faults" "scenario_db 200"] sel eq quiet sb
    by (auto simp: scenario_page_def scenario_db_def)
qed

text \<open>
  C10. Whenever the handler gets past the balance update (it reports success, or fails only
  at the transfer insert), the balance_after of the ledger entry it wrote and the
  credit_balance it wrote to the user's profile are the same number, the cached balance
  minus creditsUsed, with no assumption on what balance the store held.
\<close>
theorem ledger_and_profile_get_the_same_balance:
  assumes "selected_user pg = Some selectedUser"
    and "RecordedSuccessfully \<in> set (alerts_shown env pg d)
         \<or> alerts_shown env pg d = [ErrorRecording (StoreFault TransferInsert)]"
  shows "\<exists>e. credit_ledger (store_after env pg d) = credit_ledger d @ [e]
           \<and> l_balance_after e = credit_balance selectedUser - f_creditsUsed (formData pg)
           \<and> (\<forall>p \<in> set (profiles (store_after env pg d)).
                 p_id p = f_userId (formData pg) \<longrightarrow> p_credit_balance p = l_balance_after e)
           \<and> map p_id (profiles (store_after env pg d)) = map p_id (profiles d)"
  using assms
  by (auto simp: handler_defs Let_def ledgerPayload_def o_def
      split: if_splits prod.splits sum.splits option.splits)

theorem ledger_and_profile_get_the_same_balance_witness:
  "selected_user (scenario_page 500 200) = Some (hd (users (scenario_page 500 200)))
   \<and> alerts_shown (scenario_env (fault_at TransferInsert)) (scenario_page 500 200) (scenario_db 100)
        = [ErrorRecording (StoreFault TransferInsert)]
   \<and> stored_balance (scenario_db 100) ''u1'' = Some 100
   \<and> map l_balance_after (credit_ledger (store_after (scenario_env (fault_at TransferInsert)) (scenario_page 500 200) (scenario_db 100))) = [300]
   \<and> map p_credit_balance (profiles (store_after (scenario_env (fault_at TransferInsert)) (scenario_page 500 200) (scenario_db 100))) = [300]"
proof -
  have sel: "selected_user (scenario_page 500 200) = Some (hd (users (scenario_page 500 200)))"
    by (simp add: selected_user_def scenario_page_def)
  have al: "alerts_shown (scenario_env (fault_at TransferInsert)) (scenario_page 500 200) (scenario_db 100)
        = [ErrorRecording (StoreFault TransferInsert)]"
    by (simp add: handler_defs scenario_defs)
  have ids: "map p_id (profiles (scenario_db 100)) = [''u1'']"
    by (simp add: scenario_db_def)
  have sb: "stored_balance (scenario_db 100) ''u1'' = Some 100"
    by (simp add: scenario_defs)
  from ledger_and_profile_get_the_same_balance [OF sel disjI2 [OF al]]
  obtain e where e: "credit_ledger (store_after (scenario_env (fault_at TransferInsert)) (scenario_page 500 200) (scenario_db 100))
        = credit_ledger (scenario_db 100) @ [e]"
     "l_balance_after e = credit_balance (hd (users (scenario_page 500 200))) - f_creditsUsed (formData (scenario_page 500 200))"
     "\<forall>p \<in> set (profiles (store_after (scenario_env (fault_at TransferInsert)) (scenario_page 500 200) (scenario_db 100))).
         p_id p = f_userId (formData (scenario_page 500 200)) \<longrightarrow> p_credit_balance p = l_balance_after e"
     "map p_id (profiles (store_after (scenario_env (fault_at TransferInsert)) (scenario_page 500 200) (scenario_db 100)))
        = map p_id (profiles (scenario_db 100))"
    by blast
  from e(4) ids obtain p where p: "profiles (store_after (scenario_env (fault_at TransferInsert)) (scenario_page 500 200) (scenario_db 100)) = [p]" "p_id p = ''u1''"
    by (auto simp: map_eq_Cons_conv)
  have "p_credit_balance p = 300" using e(2,3) p by (simp add: scenario_page_def)
  moreover have "l_balance_after e = 300" using e(2) by (simp add: scenario_page_def)
  ultimately show ?thesis using sel al sb e(1) p by (simp add: scenario_db_def)
qed

text \<open>
  C1 as stated fails: the handler never writes status failed. Here the transfer insert
  fails after the settlement row was created, and the row is still processed.
\<close>
theorem failed_step_leaves_status_counterexample:
  "alerts_shown (scenario_env (fault_at TransferInsert)) (scenario_page 500 200) (scenario_db 500)
     = [ErrorRecording (StoreFault TransferInsert)]
   \<and> map s_status (settlements (store_after (scenario_env (fault_at TransferInsert))
         (scenario_page 500 200) (scenario_db 500))) = [Processed]
   \<and> Failed \<notin> set (map s_status (settlements (store_after (scenario_env (fault_at TransferInsert))
         (scenario_page 500 200) (scenario_db 500))))"
  by (simp add: handler_defs scenario_defs)

text \<open>
  C1, amended. When the settlement row has been created and a later step (ledger insert,
  balance update or transfer insert) fails, the handler skips the remaining steps and
  reports that error; the settlement row stays as it was inserted, with status processed,
  and the writes made before the failing step stay in the store: after a failed balance
  update the ledger entry, after a failed transfer insert the ledger entry and the debit of
  the stored balance.
\<close>

theorem failed_step_leaves_settlement_as_inserted:
  assumes "selected_user pg = Some selectedUser"
    and "f_creditsUsed (formData pg) \<le> credit_balance selectedUser"
    and "\<not> e_fault env SettlementInsert"
    and "generateSettlementId (e_now env) (e_random env) \<notin> set (map s_settlementId (settlements d))"
    and "first_fault env = Some c"
  shows "alerts_shown env pg d = [ErrorRecording (StoreFault c)]
         \<and> (\<exists>stl. settlements (store_after env pg d) = settlements d @ [stl]
               \<and> s_status stl = Processed
               \<and> (c = LedgerInsert \<longrightarrow>
                     credit_ledger (store_after env pg d) = credit_ledger d
                   \<and> profiles (store_after env pg d) = profiles d
                   \<and> nila_transfers (store_after env pg d) = nila_transfers d)
               \<and> (c = ProfileUpdate \<longrightarrow>
                     (\<exists>e. credit_ledger (store_after env pg d) = credit_ledger d @ [e]
                        \<and> l_amount e = - f_creditsUsed (formData pg)
                        \<and> l_reference_id e = s_id stl)
                   \<and> profiles (store_after env pg d) = profiles d
                   \<and> nila_transfers (store_after env pg d) = nila_transfers d)
               \<and> (c = TransferInsert \<longrightarrow>
                     (\<exists>e. credit_ledger (store_after env pg d) = credit_ledger d @ [e]
                        \<and> l_amount e = - f_creditsUsed (formData pg)
                        \<and> l_reference_id e = s_id stl)
                   \<and> map p_id (profiles (store_after env pg d)) = map p_id (profiles d)
                   \<and> (\<forall>p \<in> set (profiles (store_after env pg d)).
                         p_id p = f_userId (formData pg) \<longrightarrow>
                         p_credit_balance p = credit_balance selectedUser - f_creditsUsed (formData pg))
                   \<and> (stored_balance d (f_userId (formData pg)) \<noteq> None \<longrightarrow>
                         stored_balance (store_after env pg d) (f_userId (formData pg))
                           = Some (credit_balance selectedUser - f_creditsUsed (formData pg)))
                   \<and> nila_transfers (store_after env pg d) = nila_transfers d))"
proof -
  consider "c = LedgerInsert" "e_fault env LedgerInsert"
    | "c = ProfileUpdate" "\<not> e_fault env LedgerInsert" "e_fault env ProfileUpdate"
    | "c = TransferInsert" "\<not> e_fault env LedgerInsert" "\<not> e_fault env ProfileUpdate"
        "e_fault env TransferInsert"
    using assms(5) by (auto simp: first_fault_def split: if_splits)
  then show ?thesis
  proof cases
    case 1
    then show ?thesis using assms(1-4)
      by (simp add: handler_defs Let_def settlementPayload_def)
  next
    case 2
    then show ?thesis using assms(1-4)
      by (simp add: handler_defs Let_def settlementPayload_def ledgerPayload_def)
  next
    case 3
    then show ?thesis using assms(1-4)
      by (auto simp: handler_defs Let_def settlementPayload_def ledgerPayload_def o_def
          stored_balance_def find_map_balance)
  qed
qed

theorem failed_step_leaves_settlement_as_inserted_witness:
  "selected_user (scenario_page 400 100) = Some (hd (users (scenario_page 400 100)))
   \<and> f_creditsUsed (formData (scenario_page 400 100)) \<le> credit_balance (hd (users (scenario_page 400 100)))
   \<and> first_fault (scenario_env (fault_at TransferInsert)) = Some TransferInsert
   \<and> alerts_shown (scenario_env (fault_at TransferInsert)) (scenario_page 400 100) (scenario_db 400)
        = [ErrorRecording (StoreFault TransferInsert)]
   \<and> map s_status (settlements (store_after (scenario_env (fault_at TransferInsert))
        (scenario_page 400 100) (scenario_db 400))) = [Processed]
   \<and> map l_amount (credit_ledger (store_after (scenario_env (fault_at TransferInsert))
        (scenario_page 400 100) (scenario_db 400))) = [- 100]
   \<and> stored_balance (store_after (scenario_env (fault_at TransferInsert))
        (scenario_page 400 100) (scenario_db 400)) ''u1'' = Some 300
   \<and> nila_transfers (store_after (scenario_env (fault_at TransferInsert))
        (scenario_page 400 100) (scenario_db 400)) = []"
proof -
  have sel: "selected_user (scenario_page 400 100) = Some (hd (users (scenario_page 400 100)))"
    by (simp add: selected_user_def scenario_page_def)
  have le: "f_creditsUsed (formData (scenario_page 400 100)) \<le> credit_balance (hd (users (scenario_page 400 100)))"
    by (simp add: scenario_page_def)
  have nf: "\<not> e_fault (scenario_env (fault_at TransferInsert)) SettlementInsert"
    by (simp add: scenario_env_def fault_at_def)
  have new: "generateSettlementId (e_now (scenario_env (fault_at TransferInsert)))
      (e_random (scenario_env (fault_at TransferInsert)))
        \<notin> set (map s_settlementId (settlements (scenario_db 400)))"
    by (simp add: scenario_db_def)
  have ff: "first_fault (scenario_env (fault_at TransferInsert)) = Some TransferInsert"
    by (simp add: first_fault_def scenario_env_def fault_at_def)
  have sb: "stored_balance (scenario_db 400) ''u1'' \<noteq> None"
    by (simp add: scenario_defs)
  show ?thesis
    using failed_step_leaves_settlement_as_inserted [OF sel le nf new ff] sel le ff sb
    by (auto simp: scenario_page_def scenario_db_def)
qed

text \<open>
  C2 as stated fails: the settlement row is created with status processed before any
  downstream write. Here the ledger insert fails: no ledger entry, no balance change and no
  transfer exist, and the stored settlement is already processed.
\<close>
theorem settlement_created_processed_counterexample:
  "map s_status (settlements (store_after (scenario_env (fault_at LedgerInsert))
         (scenario_page 500 200) (scenario_db 500))) = [Processed]
   \<and> credit_ledger (store_after (scenario_env (fault_at LedgerInsert)) (scenario_page 500 200) (scenario_db 500)) = []
   \<and> nila_transfers (store_after (scenario_env (fault_at LedgerInsert)) (scenario_page 500 200) (scenario_db 500)) = []
   \<and> profiles (store_after (scenario_env (fault_at LedgerInsert)) (scenario_page 500 200) (scenario_db 500))
        = profiles (scenario_db 500)"
  by (simp add: handler_defs scenario_defs)

text \<open>
  C2, amended. The handler writes at most one settlement row, and writes it with status
  processed; it never changes a stored settlement. The ledger entry, the balance update and
  the transfer are written only after that row is stored: right after the settlement insert
  the other three tables are untouched.
\<close>

theorem settlement_is_inserted_as_processed:
  "(settlements (store_after env pg d) = settlements d
      \<or> (\<exists>stl. settlements (store_after env pg d) = settlements d @ [stl] \<and> s_status stl = Processed))
   \<and> (credit_ledger (store_after env pg d) \<noteq> credit_ledger d
        \<or> profiles (store_after env pg d) \<noteq> profiles d
        \<or> nila_transfers (store_after env pg d) \<noteq> nila_transfers d
      \<longrightarrow> (\<exists>stl. settlements (store_after env pg d) = settlements d @ [stl] \<and> s_status stl = Processed))
   \<and> (\<forall>u stl d1. step c AtSettlementInsert d = (AtLedgerInsert u stl, d1) \<longrightarrow>
         s_status stl = Processed \<and> settlements d1 = settlements d @ [stl]
         \<and> credit_ledger d1 = credit_ledger d \<and> profiles d1 = profiles d
         \<and> nila_transfers d1 = nila_transfers d)"
  by (auto simp: handler_defs step_def Let_def settlementPayload_def
      split: if_splits prod.splits sum.splits option.splits)


theorem settlement_is_inserted_as_processed_witness:
  "credit_ledger (store_after (scenario_env no_faults) (scenario_page 500 200) (scenario_db 500))
     \<noteq> credit_ledger (scenario_db 500)
   \<and> (\<exists>stl. settlements (store_after (scenario_env no_faults) (scenario_page 500 200) (scenario_db 500))
               = settlements (scenario_db 500) @ [stl] \<and> s_status stl = Processed)
   \<and> (\<exists>u stl d1. step (client_of (scenario_env no_faults) (scenario_page 500 200)) AtSettlementInsert (scenario_db 500)
                     = (AtLedgerInsert u stl, d1)
         \<and> s_status stl = Processed \<and> credit_ledger d1 = [] \<and> nila_transfers d1 = [])"
proof -
  have changed: "credit_ledger (store_after (scenario_env no_faults) (scenario_page 500 200) (scenario_db 500))
     \<noteq> credit_ledger (scenario_db 500)"
    by (simp add: handler_defs scenario_defs)
  obtain ph d1 where st: "step (client_of (scenario_env no_faults) (scenario_page 500 200)) AtSettlementInsert (scenario_db 500) = (ph, d1)"
    by (cases "step (client_of (scenario_env no_faults) (scenario_page 500 200)) AtSettlementInsert (scenario_db 500)")
  have "\<exists>u stl. ph = AtLedgerInsert u stl"
    using st by (auto simp: step_def client_of_def insert_settlement_def stored_row_def scenario_defs)
  then obtain u stl where ph: "ph = AtLedgerInsert u stl" by blast
  note inst = settlement_is_inserted_as_processed
    [of "scenario_env no_faults" "scenario_page 500 200" "scenario_db 500"
        "client_of (scenario_env no_faults) (scenario_page 500 200)"]
  from inst changed have a: "\<exists>stl. settlements (store_after (scenario_env no_faults) (scenario_page 500 200) (scenario_db 500))
               = settlements (scenario_db 500) @ [stl] \<and> s_status stl = Processed"
    by blast
  from inst st ph have b: "s_status stl = Processed \<and> credit_ledger d1 = credit_ledger (scenario_db 500)
        \<and> nila_transfers d1 = nila_transfers (scenario_db 500)"
    by blast
  show ?thesis using changed a b st ph by (auto simp: scenario_db_def)
qed

text \<open>
  C7 as stated fails: here the balance update fails, and the store holds a processed
  settlement with no transfer and no debit; the ledger entry refers to the row id of the
  settlement, not to its settlementId.
\<close>
theorem processed_settlement_without_transfer_counterexample:
  "map s_status (settlements (store_after (scenario_env (fault_at ProfileUpdate))
         (scenario_page 500 200) (scenario_db 500))) = [Processed]
   \<and> nila_transfers (store_after (scenario_env (fault_at ProfileUpdate)) (scenario_page 500 200) (scenario_db 500)) = []
   \<and> stored_balance (store_after (scenario_env (fault_at ProfileUpdate)) (scenario_page 500 200) (scenario_db 500)) ''u1''
        = Some 500
   \<and> map l_reference_id (credit_ledger (store_after (scenario_env (fault_at ProfileUpdate))
         (scenario_page 500 200) (scenario_db 500))) = [''5f0c'']
   \<and> map s_settlementId (settlements (store_after (scenario_env (fault_at ProfileUpdate))
         (scenario_page 500 200) (scenario_db 500))) = [''STL_1700000000000_K3X9Q2'']"
  by (simp add: handler_defs scenario_defs first_id)

text \<open>
  C7, amended. For every settlement the handler reports as recorded, the store holds the
  new settlement row with status processed, exactly one ledger entry whose reference_id is
  the id of that row and exactly one transfer whose settlementId field is the id of that
  row (the row id being new to the ledger and the transfers), and the stored balance of the
  user is the balance cached by the page minus creditsUsed.
\<close>

theorem successful_settlement_has_one_entry_and_one_transfer:
  assumes "selected_user pg = Some selectedUser"
    and "RecordedSuccessfully \<in> set (alerts_shown env pg d)"
    and "\<forall>e \<in> set (credit_ledger d). l_reference_id e \<noteq> e_row_id env"
    and "\<forall>t \<in> set (nila_transfers d). t_settlementId t \<noteq> e_row_id env"
  shows "\<exists>stl. settlements (store_after env pg d) = settlements d @ [stl]
           \<and> s_status stl = Processed
           \<and> s_id stl = e_row_id env
           \<and> s_settlementId stl = generateSettlementId (e_now env) (e_random env)
           \<and> length (filter (\<lambda>e. l_reference_id e = s_id stl) (credit_ledger (store_after env pg d))) = 1
           \<and> length (filter (\<lambda>t. t_settlementId t = s_id stl) (nila_transfers (store_after env pg d))) = 1
           \<and> (stored_balance d (f_userId (formData pg)) \<noteq> None \<longrightarrow>
                stored_balance (store_after env pg d) (f_userId (formData pg))
                  = Some (credit_balance selectedUser - f_creditsUsed (formData pg)))"
  using assms
  by (auto simp: handler_defs Let_def settlementPayload_def ledgerPayload_def transferPayload_def
        stored_balance_def find_map_balance filter_empty_conv
      split: if_splits prod.splits sum.splits option.splits)

theorem successful_settlement_has_one_entry_and_one_transfer_witness:
  "selected_user (scenario_page 500 200) = Some (hd (users (scenario_page 500 200)))
   \<and> RecordedSuccessfully \<in> set (alerts_shown (scenario_env no_faults) (scenario_page 500 200) (scenario_db 500))
   \<and> credit_ledger (scenario_db 500) = [] \<and> nila_transfers (scenario_db 500) = []
   \<and> stored_balance (scenario_db 500) ''u1'' = Some 500
   \<and> (\<exists>stl. settlements (store_after (scenario_env no_faults) (scenario_page 500 200) (scenario_db 500)) = [stl]
         \<and> s_status stl = Processed \<and> s_id stl = ''5f0c''
         \<and> length (filter (\<lambda>e. l_reference_id e = ''5f0c'')
              (credit_ledger (store_after (scenario_env no_faults) (scenario_page 500 200) (scenario_db 500)))) = 1
         \<and> length (filter (\<lambda>t. t_settlementId t = ''5f0c'')
              (nila_transfers (store_after (scenario_env no_faults) (scenario_page 500 200) (scenario_db 500)))) = 1)
   \<and> stored_balance (store_after (scenario_env no_faults) (scenario_page 500 200) (scenario_db 500)) ''u1'' = Some 300"
proof -
  have sel: "selected_user (scenario_page 500 200) = Some (hd (users (scenario_page 500 200)))"
    by (simp add: selected_user_def scenario_page_def)
  have ok: "RecordedSuccessfully \<in> set (alerts_shown (scenario_env no_faults) (scenario_page 500 200) (scenario_db 500))"
    by (simp add: handler_defs scenario_defs)
  have f1: "\<forall>e \<in> set (credit_ledger (scenario_db 500)). l_reference_id e \<noteq> e_row_id (scenario_env no_faults)"
    by (simp add: scenario_db_def)
  have f2: "\<forall>t \<in> set (nila_transfers (scenario_db 500)). t_settlementId t \<noteq> e_row_id (scenario_env no_faults)"
    by (simp add: scenario_db_def)
  have sb: "stored_balance (scenario_db 500) ''u1'' \<noteq> None"
    by (simp add: scenario_defs)
  have sb': "stored_balance (scenario_db 500) ''u1'' = Some 500"
    by (simp add: scenario_defs)
  show ?thesis
    using successful_settlement_has_one_entry_and_one_transfer [OF sel ok f1 f2] sel ok sb sb'
    by (auto simp: scenario_page_def scenario_db_def scenario_env_def)
qed

text \<open>
  A settlementId that is already stored stops the handler before any write; a run that did
  not store its settlementId wrote nothing; and one run appends at most one ledger entry
  and at most one transfer.
\<close>

lemma stored_settlement_id_blocks_writes:
  assumes "generateSettlementId (e_now env) (e_random env) \<in> set (map s_settlementId (settlements d))"
  shows "store_after env pg d = d \<and> RecordedSuccessfully \<notin> set (alerts_shown env pg d)"
  using assms
  by (auto simp: handler_defs Let_def settlementPayload_def
      split: if_splits prod.splits sum.splits option.splits)

lemma run_without_stored_id_wrote_nothing:
  assumes "generateSettlementId (e_now env) (e_random env)
             \<notin> set (map s_settlementId (settlements (store_after env pg d)))"
  shows "store_after env pg d = d"
  using assms
  by (auto simp: handler_defs Let_def settlementPayload_def
      split: if_splits prod.splits sum.splits option.splits)

lemma one_run_appends_at_most_one:
  "(\<exists>es. credit_ledger (store_after env pg d) = credit_ledger d @ es \<and> length es \<le> 1)
   \<and> (\<exists>ts. nila_transfers (store_after env pg d) = nila_transfers d @ ts \<and> length ts \<le> 1)"
  by (auto simp: handler_defs Let_def split: if_splits prod.splits sum.splits option.splits)

text \<open>
  C6 as stated fails: two runs with the same settlementId do not always leave exactly one
  ledger entry, one debit and one transfer. Here the first run fails at the ledger insert
  after its settlement row was stored; the second run generates the same settlementId and
  is refused by the store. The store then holds the settlement row, no ledger entry and no
  transfer, and the balance is still 500.
\<close>
theorem retry_after_partial_failure_counterexample:
  "generateSettlementId (e_now (scenario_env no_faults)) (e_random (scenario_env no_faults))
     = generateSettlementId (e_now (scenario_env (fault_at LedgerInsert)))
         (e_random (scenario_env (fault_at LedgerInsert)))
   \<and> alerts_shown (scenario_env (fault_at LedgerInsert)) (scenario_page 500 200) (scenario_db 500)
        = [ErrorRecording (StoreFault LedgerInsert)]
   \<and> alerts_shown (scenario_env no_faults) (scenario_page 500 200)
        (store_after (scenario_env (fault_at LedgerInsert)) (scenario_page 500 200) (scenario_db 500))
        = [ErrorRecording UniqueViolation]
   \<and> length (settlements (store_after (scenario_env no_faults) (scenario_page 500 200)
        (store_after (scenario_env (fault_at LedgerInsert)) (scenario_page 500 200) (scenario_db 500)))) = 1
   \<and> credit_ledger (store_after (scenario_env no_faults) (scenario_page 500 200)
        (store_after (scenario_env (fault_at LedgerInsert)) (scenario_page 500 200) (scenario_db 500))) = []
   \<and> nila_transfers (store_after (scenario_env no_faults) (scenario_page 500 200)
        (store_after (scenario_env (fault_at LedgerInsert)) (scenario_page 500 200) (scenario_db 500))) = []
   \<and> stored_balance (store_after (scenario_env no_faults) (scenario_page 500 200)
        (store_after (scenario_env (fault_at LedgerInsert)) (scenario_page 500 200) (scenario_db 500)))
        ''u1'' = Some 500"
  by (simp add: handler_defs scenario_defs)

text \<open>
  C6, amended. Two runs of the handler that generate the same settlementId never write two
  ledger entries, two debits or two transfers: together they append at most one ledger
  entry and at most one transfer, and at most one of them changes the profiles. Once the
  first run has stored its settlement row, the second run is rejected and leaves the store
  as it found it; so after a first run that was recorded there is exactly one ledger entry
  and one transfer, and after a first run that failed part-way there is only what that run
  wrote before it failed.
\<close>

theorem same_settlement_id_is_written_at_most_once:
  assumes "generateSettlementId (e_now env2) (e_random env2)
             = generateSettlementId (e_now env1) (e_random env1)"
  shows "(\<exists>es. credit_ledger (store_after env2 pg2 (store_after env1 pg1 d)) = credit_ledger d @ es
            \<and> length es \<le> 1)
         \<and> (\<exists>ts. nila_transfers (store_after env2 pg2 (store_after env1 pg1 d)) = nila_transfers d @ ts
            \<and> length ts \<le> 1)
         \<and> (profiles (store_after env1 pg1 d) = profiles d
            \<or> profiles (store_after env2 pg2 (store_after env1 pg1 d)) = profiles (store_after env1 pg1 d))
         \<and> (settlements (store_after env1 pg1 d) \<noteq> settlements d \<longrightarrow>
              store_after env2 pg2 (store_after env1 pg1 d) = store_after env1 pg1 d
            \<and> RecordedSuccessfully \<notin> set (alerts_shown env2 pg2 (store_after env1 pg1 d)))
         \<and> (RecordedSuccessfully \<in> set (alerts_shown env1 pg1 d) \<longrightarrow>
              store_after env2 pg2 (store_after env1 pg1 d) = store_after env1 pg1 d
            \<and> RecordedSuccessfully \<notin> set (alerts_shown env2 pg2 (store_after env1 pg1 d))
            \<and> (\<exists>e t. credit_ledger (store_after env2 pg2 (store_after env1 pg1 d)) = credit_ledger d @ [e]
                  \<and> l_amount e = - f_creditsUsed (formData pg1)
                  \<and> nila_transfers (store_after env2 pg2 (store_after env1 pg1 d)) = nila_transfers d @ [t]
                  \<and> t_status t = Completed))"
proof -
  let ?d1 = "store_after env1 pg1 d"
  let ?d2 = "store_after env2 pg2 ?d1"
  let ?sid = "generateSettlementId (e_now env1) (e_random env1)"
  have blocked: "?d2 = ?d1 \<and> RecordedSuccessfully \<notin> set (alerts_shown env2 pg2 ?d1)"
    if "?sid \<in> set (map s_settlementId (settlements ?d1))"
    using stored_settlement_id_blocks_writes [of env2 ?d1 pg2] that assms by simp
  have unchanged: "?d1 = d" if "?sid \<notin> set (map s_settlementId (settlements ?d1))"
    using run_without_stored_id_wrote_nothing [of env1 pg1 d] that by simp
  have most: "(\<exists>es. credit_ledger ?d2 = credit_ledger d @ es \<and> length es \<le> 1)
         \<and> (\<exists>ts. nila_transfers ?d2 = nila_transfers d @ ts \<and> length ts \<le> 1)
         \<and> (profiles ?d1 = profiles d \<or> profiles ?d2 = profiles ?d1)"
  proof (cases "?sid \<in> set (map s_settlementId (settlements ?d1))")
    case True
    then show ?thesis using blocked one_run_appends_at_most_one [of env1 pg1 d] by simp
  next
    case False
    then show ?thesis using unchanged one_run_appends_at_most_one [of env2 pg2 d] by simp
  qed
  have stored: "settlements ?d1 \<noteq> settlements d \<longrightarrow>
      ?d2 = ?d1 \<and> RecordedSuccessfully \<notin> set (alerts_shown env2 pg2 ?d1)"
  proof (cases "?sid \<in> set (map s_settlementId (settlements ?d1))")
    case True
    then show ?thesis using blocked by simp
  next
    case False
    then show ?thesis using unchanged by simp
  qed
  have recorded: "?sid \<in> set (map s_settlementId (settlements ?d1))
      \<and> (\<exists>e t. credit_ledger ?d1 = credit_ledger d @ [e]
             \<and> l_amount e = - f_creditsUsed (formData pg1)
             \<and> nila_transfers ?d1 = nila_transfers d @ [t] \<and> t_status t = Completed)"
    if "RecordedSuccessfully \<in> set (alerts_shown env1 pg1 d)"
    using that
    by (auto simp: handler_defs Let_def settlementPayload_def ledgerPayload_def transferPayload_def
        split: if_splits prod.splits sum.splits option.splits)
  have after_success: "RecordedSuccessfully \<in> set (alerts_shown env1 pg1 d) \<longrightarrow>
      ?d2 = ?d1 \<and> RecordedSuccessfully \<notin> set (alerts_shown env2 pg2 ?d1)
      \<and> (\<exists>e t. credit_ledger ?d2 = credit_ledger d @ [e]
             \<and> l_amount e = - f_creditsUsed (formData pg1)
             \<and> nila_transfers ?d2 = nila_transfers d @ [t] \<and> t_status t = Completed)"
    using recorded blocked by simp
  show ?thesis using most stored after_success by (intro conjI) blast+
qed

theorem same_settlement_id_is_written_at_most_once_witness:
  "generateSettlementId (e_now (scenario_env (fault_at UsersSelect)))
       (e_random (scenario_env (fault_at UsersSelect)))
     = generateSettlementId (e_now (scenario_env no_faults)) (e_random (scenario_env no_faults))
   \<and> RecordedSuccessfully \<in> set (alerts_shown (scenario_env no_faults) (scenario_page 500 200) (scenario_db 500))
   \<and> alerts_shown (scenario_env (fault_at UsersSelect)) (scenario_page 300 200)
        (store_after (scenario_env no_faults) (scenario_page 500 200) (scenario_db 500))
        = [ErrorRecording UniqueViolation]
   \<and> length (credit_ledger (store_after (scenario_env (fault_at UsersSelect)) (scenario_page 300 200)
        (store_after (scenario_env no_faults) (scenario_page 500 200) (scenario_db 500)))) = 1
   \<and> length (nila_transfers (store_after (scenario_env (fault_at UsersSelect)) (scenario_page 300 200)
        (store_after (scenario_env no_faults) (scenario_page 500 200) (scenario_db 500)))) = 1
   \<and> stored_balance (store_after (scenario_env (fault_at UsersSelect)) (scenario_page 300 200)
        (store_after (scenario_env no_faults) (scenario_page 500 200) (scenario_db 500))) ''u1'' = Some 300"
proof -
  have ok: "RecordedSuccessfully \<in> set (alerts_shown (scenario_env no_faults) (scenario_page 500 200) (scenario_db 500))"
    by (simp add: handler_defs scenario_defs)
  have same: "generateSettlementId (e_now (scenario_env (fault_at UsersSelect)))
       (e_random (scenario_env (fault_at UsersSelect)))
        = generateSettlementId (e_now (scenario_env no_faults)) (e_random (scenario_env no_faults))"
    by (simp add: scenario_env_def)
  have bal: "stored_balance (store_after (scenario_env no_faults) (scenario_page 500 200) (scenario_db 500)) ''u1'' = Some 300"
    by (simp add: handler_defs scenario_defs)
  have al: "alerts_shown (scenario_env (fault_at UsersSelect)) (scenario_page 300 200)
        (store_after (scenario_env no_faults) (scenario_page 500 200) (scenario_db 500))
        = [ErrorRecording UniqueViolation]"
    by (simp add: handler_defs scenario_defs)
  show ?thesis
    using same_settlement_id_is_written_at_most_once [OF same, of "scenario_page 300 200"
        "scenario_page 500 200" "scenario_db 500"] same ok al bal
    by (auto simp: scenario_db_def)
qed

text \<open>
  The handler itself has no replay check: the same form submitted again draws a new
  settlementId and is recorded a second time.
\<close>

lemma resubmitted_form_is_recorded_twice:
  "alerts_shown (second_env no_faults) (scenario_page 500 200)
        (store_after (scenario_env no_faults) (scenario_page 500 200) (scenario_db 500))
     = [RecordedSuccessfully]
   \<and> map l_amount (credit_ledger (store_after (second_env no_faults) (scenario_page 500 200)
        (store_after (scenario_env no_faults) (scenario_page 500 200) (scenario_db 500))))
        = [- 200, - 200]
   \<and> length (nila_transfers (store_after (second_env no_faults) (scenario_page 500 200)
        (store_after (scenario_env no_faults) (scenario_page 500 200) (scenario_db 500)))) = 2"
  by (simp add: handler_defs scenario_defs second_env_def first_id second_id)

section \<open>Two requests in flight\<close>

lemma row_of_simps [simp]:
  "s_settlementId (row_of c) = settlementId_of c" "s_status (row_of c) = Processed"
  by (simp_all add: row_of_def stored_row_def settlementPayload_def)

lemma step_at:
  assumes "passes c u"
  shows "step c (phase_at c u 0) d =
           (if settlementId_of c \<in> s_settlementId ` set (settlements d)
            then (Returned (ErrorRecording UniqueViolation), d)
            else (phase_at c u 1, d\<lparr>settlements := settlements d @ [row_of c]\<rparr>))"
    and "step c (phase_at c u 1) d = (phase_at c u 2, d\<lparr>credit_ledger := credit_ledger d @ [entry_of c u]\<rparr>)"
    and "step c (phase_at c u 2) d = (phase_at c u 3, snd (update_credit_balance (c_env c) (f_userId (c_form c))
             (credit_balance u - f_creditsUsed (c_form c)) (e_iso (c_env c)) d))"
    and "step c (phase_at c u 3) d = (phase_at c u 4, d\<lparr>nila_transfers := nila_transfers d @ [transfer_of c]\<rparr>)"
    and "4 \<le> n \<Longrightarrow> step c (phase_at c u n) d = (phase_at c u n, d)"
  using assms
  by (simp_all add: phase_at_def step_def passes_def Let_def insert_settlement_def insert_ledger_def
      insert_transfer_def update_credit_balance_def row_of_def entry_of_def transfer_of_def
      settlementId_of_def settlementPayload_def)

lemma map_id_update:
  "map p_id (map (\<lambda>p. if p_id p = uid then p\<lparr>p_credit_balance := v, p_updated_at := t\<rparr> else p) ps)
     = map p_id ps"
  by (induction ps) simp_all

lemma update_credit_balance_effect:
  assumes "\<not> e_fault env ProfileUpdate"
  shows "settlements (snd (update_credit_balance env uid v t d)) = settlements d"
    and "credit_ledger (snd (update_credit_balance env uid v t d)) = credit_ledger d"
    and "nila_transfers (snd (update_credit_balance env uid v t d)) = nila_transfers d"
    and "map p_id (profiles (snd (update_credit_balance env uid v t d))) = map p_id (profiles d)"
    and "p \<in> set (profiles (snd (update_credit_balance env uid v t d))) \<Longrightarrow> p_id p \<noteq> uid
           \<Longrightarrow> p \<in> set (profiles d)"
    and "p \<in> set (profiles (snd (update_credit_balance env uid v t d))) \<Longrightarrow> p_id p = uid
           \<Longrightarrow> p_credit_balance p = v"
proof -
  have eq: "profiles (snd (update_credit_balance env uid v t d)) =
      map (\<lambda>p. if p_id p = uid then p\<lparr>p_credit_balance := v, p_updated_at := t\<rparr> else p) (profiles d)"
    using assms by (simp add: update_credit_balance_def)
  show "settlements (snd (update_credit_balance env uid v t d)) = settlements d"
    and "credit_ledger (snd (update_credit_balance env uid v t d)) = credit_ledger d"
    and "nila_transfers (snd (update_credit_balance env uid v t d)) = nila_transfers d"
    using assms by (simp_all add: update_credit_balance_def)
  show "map p_id (profiles (snd (update_credit_balance env uid v t d))) = map p_id (profiles d)"
    unfolding eq by (rule map_id_update)
  show "p \<in> set (profiles d)"
    if "p \<in> set (profiles (snd (update_credit_balance env uid v t d)))" "p_id p \<noteq> uid"
  proof -
    from that(1) obtain q where q: "q \<in> set (profiles d)"
      "p = (if p_id q = uid then q\<lparr>p_credit_balance := v, p_updated_at := t\<rparr> else q)"
      unfolding eq by auto
    show ?thesis
    proof (cases "p_id q = uid")
      case True
      then show ?thesis using q(2) that(2) by simp
    next
      case False
      then show ?thesis using q by simp
    qed
  qed
  show "p_credit_balance p = v"
    if "p \<in> set (profiles (snd (update_credit_balance env uid v t d)))" "p_id p = uid"
  proof -
    from that(1) obtain q where q: "q \<in> set (profiles d)"
      "p = (if p_id q = uid then q\<lparr>p_credit_balance := v, p_updated_at := t\<rparr> else q)"
      unfolding eq by auto
    show ?thesis
    proof (cases "p_id q = uid")
      case True
      then show ?thesis using q(2) by simp
    next
      case False
      then show ?thesis using q(2) that(2) by simp
    qed
  qed
qed

text \<open>The invariant is kept by a store call of either request, hence by every schedule.\<close>

lemma inv_step_a:
  assumes "passes a ua" "passes b ub"
    and "settlementId_of a \<noteq> settlementId_of b"
    and "settlementId_of a \<notin> s_settlementId ` set (settlements d0)"
    and "f_userId (c_form b) = f_userId (c_form a)"
    and "in_flight_inv a b ua ub d0 i j (pa, pb, d)"
    and "step a pa d = (pa', d')"
  shows "in_flight_inv a b ua ub d0 (min 4 (Suc i)) j (pa', pb, d')"
proof -
  consider "i = 0" | "i = 1" | "i = 2" | "i = 3" | "4 \<le> i" by linarith
  then show ?thesis
  proof cases
    case 1
    have "mset (settlements d) = mset (settlements d0) + written 1 j (row_of b)"
      using assms(6) 1 by (simp add: in_flight_inv_def written_def)
    then have "set_mset (mset (settlements d)) = set_mset (mset (settlements d0) + written 1 j (row_of b))"
      by simp
    then have "set (settlements d) \<subseteq> set (settlements d0) \<union> {row_of b}"
      by (auto simp: written_def split: if_splits)
    then have "settlementId_of a \<notin> s_settlementId ` set (settlements d)"
      using assms(3,4) by auto
    moreover have m: "min 4 (Suc i) = 1" using 1 by simp
    ultimately show ?thesis unfolding m using assms 1 step_at(1) [OF assms(1), of d]
      by (auto simp: in_flight_inv_def written_def balances_written_def)
  next
    case 2
    then have m: "min 4 (Suc i) = 2" by simp
    show ?thesis unfolding m using 2 assms step_at(2) [OF assms(1), of d]
      by (auto simp: in_flight_inv_def written_def balances_written_def)
  next
    case 3
    then have m: "min 4 (Suc i) = 3" by simp
    have nf: "\<not> e_fault (c_env a) ProfileUpdate" using assms(1) by (simp add: passes_def)
    note eff = update_credit_balance_effect [OF nf, where uid = "f_userId (c_form a)"
        and v = "credit_balance ua - f_creditsUsed (c_form a)" and t = "e_iso (c_env a)" and d = d]
    have st: "pa' = phase_at a ua 3"
      "d' = snd (update_credit_balance (c_env a) (f_userId (c_form a))
             (credit_balance ua - f_creditsUsed (c_form a)) (e_iso (c_env a)) d)"
      using assms(6,7) 3 step_at(3) [OF assms(1), of d] by (simp_all add: in_flight_inv_def)
    have old: "pb = phase_at b ub j"
      "mset (settlements d) = mset (settlements d0) + written 1 i (row_of a) + written 1 j (row_of b)"
      "mset (credit_ledger d) = mset (credit_ledger d0) + written 2 i (entry_of a ua) + written 2 j (entry_of b ub)"
      "mset (nila_transfers d) = mset (nila_transfers d0) + written 4 i (transfer_of a) + written 4 j (transfer_of b)"
      "map p_id (profiles d) = map p_id (profiles d0)"
      "\<forall>p \<in> set (profiles d). p_id p \<noteq> f_userId (c_form a) \<longrightarrow> p \<in> set (profiles d0)"
      using assms(6) by (simp_all add: in_flight_inv_def)
    have "\<forall>p \<in> set (profiles d'). p_id p \<noteq> f_userId (c_form a) \<longrightarrow> p \<in> set (profiles d0)"
      using old(6) eff(5) st(2) by blast
    moreover have "\<forall>p \<in> set (profiles d'). p_id p = f_userId (c_form a) \<longrightarrow>
              p_credit_balance p \<in> balances_written a ua 3 \<union> balances_written b ub j"
      using eff(6) st(2) by (auto simp: balances_written_def)
    ultimately show ?thesis unfolding m using old 3 st(1)
      by (simp add: in_flight_inv_def st(2) eff(1-4) written_def)
  next
    case 4
    then have m: "min 4 (Suc i) = 4" by simp
    show ?thesis unfolding m using 4 assms step_at(4) [OF assms(1), of d]
      by (auto simp: in_flight_inv_def written_def balances_written_def)
  next
    case 5
    then have m: "min 4 (Suc i) = 4" by simp
    have "pa = phase_at a ua 4" using assms(6) 5 by (simp add: in_flight_inv_def phase_at_def)
    then show ?thesis unfolding m using assms 5 step_at(5) [OF assms(1), of 4 d]
      by (auto simp: in_flight_inv_def written_def balances_written_def)
  qed
qed


lemma inv_sym:
  assumes "f_userId (c_form b) = f_userId (c_form a)"
  shows "in_flight_inv a b ua ub d0 i j (pa, pb, d) = in_flight_inv b a ub ua d0 j i (pb, pa, d)"
  using assms by (simp add: in_flight_inv_def ac_simps Un_commute disj_commute conj_commute)

lemma inv_step_b:
  assumes "passes a ua" "passes b ub"
    and "settlementId_of a \<noteq> settlementId_of b"
    and "settlementId_of b \<notin> s_settlementId ` set (settlements d0)"
    and "f_userId (c_form b) = f_userId (c_form a)"
    and "in_flight_inv a b ua ub d0 i j (pa, pb, d)"
    and "step b pb d = (pb', d')"
  shows "in_flight_inv a b ua ub d0 i (min 4 (Suc j)) (pa, pb', d')"
proof -
  have "in_flight_inv b a ub ua d0 j i (pb, pa, d)"
    using assms(6) inv_sym [OF assms(5)] by simp
  then have "in_flight_inv b a ub ua d0 (min 4 (Suc j)) i (pb', pa, d')"
    using inv_step_a [of b ub a ua d0 j i pb pa d pb' d'] assms by simp
  then show ?thesis using inv_sym [OF assms(5)] by simp
qed

lemma interleave_inv:
  assumes "passes a ua" "passes b ub"
    and "settlementId_of a \<noteq> settlementId_of b"
    and "settlementId_of a \<notin> s_settlementId ` set (settlements d0)"
    and "settlementId_of b \<notin> s_settlementId ` set (settlements d0)"
    and "f_userId (c_form b) = f_userId (c_form a)"
  shows "in_flight_inv a b ua ub d0 i j s \<Longrightarrow>
         in_flight_inv a b ua ub d0 (min 4 (i + length (filter (\<lambda>x. x) sch)))
           (min 4 (j + length (filter Not sch))) (interleave sch a b s)"
proof (induction sch arbitrary: i j s)
  case Nil
  then have "i \<le> 4 \<or> 4 \<le> i" "j \<le> 4 \<or> 4 \<le> j" by auto
  obtain pa pb d where s: "s = (pa, pb, d)" by (cases s)
  have "in_flight_inv a b ua ub d0 (min 4 i) (min 4 j) s"
    using Nil unfolding s by (auto simp: in_flight_inv_def phase_at_def written_def balances_written_def min_def)
  then show ?case by simp
next
  case (Cons x sch)
  obtain pa pb d where s: "s = (pa, pb, d)" by (cases s)
  show ?case
  proof (cases x)
    case True
    obtain pa' d' where st: "step a pa d = (pa', d')" by (cases "step a pa d")
    have "in_flight_inv a b ua ub d0 (min 4 (Suc i)) j (pa', pb, d')"
      using inv_step_a [OF assms(1,2,3,4,6) _ st] Cons.prems s by simp
    from Cons.IH [OF this]
    have "in_flight_inv a b ua ub d0 (min 4 (min 4 (Suc i) + length (filter (\<lambda>x. x) sch)))
           (min 4 (j + length (filter Not sch))) (interleave sch a b (pa', pb, d'))" .
    moreover have "min 4 (min 4 (Suc i) + length (filter (\<lambda>x. x) sch))
        = min 4 (i + length (filter (\<lambda>x. x) (x # sch)))"
      using True by simp
    ultimately show ?thesis using True s st by simp
  next
    case False
    obtain pb' d' where st: "step b pb d = (pb', d')" by (cases "step b pb d")
    have "in_flight_inv a b ua ub d0 i (min 4 (Suc j)) (pa, pb', d')"
      using inv_step_b [OF assms(1,2,3,5,6) _ st] Cons.prems s by simp
    from Cons.IH [OF this]
    have "in_flight_inv a b ua ub d0 (min 4 (i + length (filter (\<lambda>x. x) sch)))
           (min 4 (min 4 (Suc j) + length (filter Not sch))) (interleave sch a b (pa, pb', d'))" .
    moreover have "min 4 (min 4 (Suc j) + length (filter Not sch))
        = min 4 (j + length (filter Not (x # sch)))"
      using False by simp
    ultimately show ?thesis using False s st by simp
  qed
qed

text \<open>Serving the four store calls of one request in a row is a run of the handler.\<close>

lemma handler_is_four_steps:
  "interleave [True, True, True, True] (client_of env pg) b (AtSettlementInsert, pb, d)
     = (Returned (last (alerts_shown env pg d)), pb, store_after env pg d)"
  by (auto simp: handler_defs step_def client_of_def Let_def
      split: if_splits prod.splits sum.splits option.splits)


text \<open>
  C8 as stated fails: with balance 500 cached by two pages and two requests of 300 credits
  whose store calls alternate, both requests are recorded, both settlements are processed,
  600 credits are debited in the ledger, and the stored balance ends at 200.
\<close>
theorem concurrent_requests_both_succeed_counterexample:
  "fst (two_requests 500 300 alternating) = Returned RecordedSuccessfully
   \<and> fst (snd (two_requests 500 300 alternating)) = Returned RecordedSuccessfully
   \<and> map s_status (settlements (snd (snd (two_requests 500 300 alternating)))) = [Processed, Processed]
   \<and> map l_amount (credit_ledger (snd (snd (two_requests 500 300 alternating)))) = [- 300, - 300]
   \<and> map l_balance_after (credit_ledger (snd (snd (two_requests 500 300 alternating)))) = [200, 200]
   \<and> stored_balance (snd (snd (two_requests 500 300 alternating))) ''u1'' = Some 200"
  by (simp add: two_requests_def alternating_def client_of_def step_def second_env_def
      insert_settlement_def stored_row_def insert_ledger_def update_credit_balance_def
      insert_transfer_def scenario_defs first_id second_id)

text \<open>
  C8, amended. Two requests for the same user that are in flight at the same time, each
  with creditsUsed not above the balance cached by its own page, with different
  settlementIds and no store fault, are both recorded in every interleaving of their store
  calls: two processed settlements, two ledger entries (each with balance_after = its
  cached balance minus its creditsUsed), two completed transfers; the stored balance ends
  as the value one of the two wrote, which is not negative.
\<close>
theorem concurrent_requests_are_both_recorded:
  assumes "passes a ua" and "passes b ub"
    and "f_userId (c_form b) = f_userId (c_form a)"
    and "settlementId_of a \<noteq> settlementId_of b"
    and "settlementId_of a \<notin> s_settlementId ` set (settlements d)"
    and "settlementId_of b \<notin> s_settlementId ` set (settlements d)"
    and "4 \<le> length (filter (\<lambda>x. x) sch)" and "4 \<le> length (filter Not sch)"
  shows "\<exists>d'. interleave sch a b (AtSettlementInsert, AtSettlementInsert, d)
               = (Returned RecordedSuccessfully, Returned RecordedSuccessfully, d')
           \<and> (\<exists>sa sb. mset (settlements d') = mset (settlements d) + {#sa, sb#}
                  \<and> s_status sa = Processed \<and> s_status sb = Processed)
           \<and> (\<exists>ea eb. mset (credit_ledger d') = mset (credit_ledger d) + {#ea, eb#}
                  \<and> l_balance_after ea = credit_balance ua - f_creditsUsed (c_form a)
                  \<and> l_balance_after eb = credit_balance ub - f_creditsUsed (c_form b))
           \<and> (\<exists>ta tb. mset (nila_transfers d') = mset (nila_transfers d) + {#ta, tb#}
                  \<and> t_status ta = Completed \<and> t_status tb = Completed)
           \<and> map p_id (profiles d') = map p_id (profiles d)
           \<and> (\<forall>p \<in> set (profiles d'). p_id p = f_userId (c_form a) \<longrightarrow>
                  0 \<le> p_credit_balance p
                \<and> (p_credit_balance p = credit_balance ua - f_creditsUsed (c_form a)
                   \<or> p_credit_balance p = credit_balance ub - f_creditsUsed (c_form b)))"
proof -
  have init: "in_flight_inv a b ua ub d 0 0 (AtSettlementInsert, AtSettlementInsert, d)"
    by (simp add: in_flight_inv_def phase_at_def written_def)
  have fin: "in_flight_inv a b ua ub d 4 4 (interleave sch a b (AtSettlementInsert, AtSettlementInsert, d))"
    using interleave_inv [OF assms(1,2,4,5,6,3) init, of sch] assms(7,8) by (simp add: min_def)
  obtain pa pb d' where r: "interleave sch a b (AtSettlementInsert, AtSettlementInsert, d) = (pa, pb, d')"
    by (cases "interleave sch a b (AtSettlementInsert, AtSettlementInsert, d)")
  have ph: "pa = Returned RecordedSuccessfully" "pb = Returned RecordedSuccessfully"
    using fin r by (simp_all add: in_flight_inv_def phase_at_def)
  have s: "mset (settlements d') = mset (settlements d) + {#row_of a, row_of b#}"
    using fin r by (simp add: in_flight_inv_def written_def)
  have l: "mset (credit_ledger d') = mset (credit_ledger d) + {#entry_of a ua, entry_of b ub#}"
    using fin r by (simp add: in_flight_inv_def written_def)
  have t: "mset (nila_transfers d') = mset (nila_transfers d) + {#transfer_of a, transfer_of b#}"
    using fin r by (simp add: in_flight_inv_def written_def)
  have ids: "map p_id (profiles d') = map p_id (profiles d)"
    using fin r by (simp add: in_flight_inv_def)
  have bal: "\<forall>p \<in> set (profiles d'). p_id p = f_userId (c_form a) \<longrightarrow>
       p_credit_balance p = credit_balance ua - f_creditsUsed (c_form a)
       \<or> p_credit_balance p = credit_balance ub - f_creditsUsed (c_form b)"
    using fin r by (auto simp: in_flight_inv_def balances_written_def)
  have nonneg: "0 \<le> credit_balance ua - f_creditsUsed (c_form a)"
      "0 \<le> credit_balance ub - f_creditsUsed (c_form b)"
    using assms(1,2) by (simp_all add: passes_def)
  have e: "l_balance_after (entry_of a ua) = credit_balance ua - f_creditsUsed (c_form a)"
      "l_balance_after (entry_of b ub) = credit_balance ub - f_creditsUsed (c_form b)"
    by (simp_all add: entry_of_def ledgerPayload_def)
  have tc: "t_status (transfer_of a) = Completed" "t_status (transfer_of b) = Completed"
    by (simp_all add: transfer_of_def transferPayload_def)
  have "\<forall>p \<in> set (profiles d'). p_id p = f_userId (c_form a) \<longrightarrow>
                  0 \<le> p_credit_balance p
                \<and> (p_credit_balance p = credit_balance ua - f_creditsUsed (c_form a)
                   \<or> p_credit_balance p = credit_balance ub - f_creditsUsed (c_form b))"
    using bal nonneg by auto
  moreover have "\<exists>sa sb. mset (settlements d') = mset (settlements d) + {#sa, sb#}
                  \<and> s_status sa = Processed \<and> s_status sb = Processed"
    using s row_of_simps(2) by blast
  moreover have "\<exists>ea eb. mset (credit_ledger d') = mset (credit_ledger d) + {#ea, eb#}
                  \<and> l_balance_after ea = credit_balance ua - f_creditsUsed (c_form a)
                  \<and> l_balance_after eb = credit_balance ub - f_creditsUsed (c_form b)"
    using l e by blast
  moreover have "\<exists>ta tb. mset (nila_transfers d') = mset (nila_transfers d) + {#ta, tb#}
                  \<and> t_status ta = Completed \<and> t_status tb = Completed"
    using t tc by blast
  ultimately show ?thesis using r ph ids by simp
qed


theorem concurrent_requests_are_both_recorded_witness:
  "passes (client_of (scenario_env no_faults) (scenario_page 500 300)) (hd (users (scenario_page 500 300)))
   \<and> passes (client_of (second_env no_faults) (scenario_page 500 300)) (hd (users (scenario_page 500 300)))
   \<and> settlementId_of (client_of (scenario_env no_faults) (scenario_page 500 300))
        \<noteq> settlementId_of (client_of (second_env no_faults) (scenario_page 500 300))
   \<and> 4 \<le> length (filter (\<lambda>x. x) alternating) \<and> 4 \<le> length (filter Not alternating)
   \<and> (\<exists>d'. two_requests 500 300 alternating
               = (Returned RecordedSuccessfully, Returned RecordedSuccessfully, d')
         \<and> (\<exists>sa sb. mset (settlements d') = {#sa, sb#}
               \<and> s_status sa = Processed \<and> s_status sb = Processed)
         \<and> (\<exists>ea eb. mset (credit_ledger d') = {#ea, eb#}
               \<and> l_balance_after ea = 200 \<and> l_balance_after eb = 200)
         \<and> map p_credit_balance (profiles d') = [200])"
proof -
  let ?a = "client_of (scenario_env no_faults) (scenario_page 500 300)"
  let ?b = "client_of (second_env no_faults) (scenario_page 500 300)"
  let ?u = "hd (users (scenario_page 500 300))"
  have pa: "passes ?a ?u"
    by (simp add: passes_def client_of_def scenario_env_def scenario_page_def no_faults_def)
  have pb: "passes ?b ?u"
    by (simp add: passes_def client_of_def second_env_def scenario_page_def no_faults_def)
  have same: "f_userId (c_form ?b) = f_userId (c_form ?a)"
    by (simp add: client_of_def)
  have ne: "settlementId_of ?a \<noteq> settlementId_of ?b"
    by (simp add: settlementId_of_def client_of_def scenario_env_def second_env_def first_id second_id)
  have fa: "settlementId_of ?a \<notin> s_settlementId ` set (settlements (scenario_db 500))"
    by (simp add: scenario_db_def)
  have fb: "settlementId_of ?b \<notin> s_settlementId ` set (settlements (scenario_db 500))"
    by (simp add: scenario_db_def)
  have n1: "4 \<le> length (filter (\<lambda>x. x) alternating)" by (simp add: alternating_def)
  have n2: "4 \<le> length (filter Not alternating)" by (simp add: alternating_def)
  have vals: "credit_balance ?u - f_creditsUsed (c_form ?a) = 200"
      "credit_balance ?u - f_creditsUsed (c_form ?b) = 200" "f_userId (c_form ?a) = ''u1''"
    by (simp_all add: client_of_def scenario_page_def)
  have empty: "settlements (scenario_db 500) = []" "credit_ledger (scenario_db 500) = []"
    by (simp_all add: scenario_db_def)
  have ids: "map p_id (profiles (scenario_db 500)) = [''u1'']"
    by (simp add: scenario_db_def)
  from concurrent_requests_are_both_recorded [OF pa pb same ne fa fb n1 n2]
  obtain d' where d':
    "two_requests 500 300 alternating = (Returned RecordedSuccessfully, Returned RecordedSuccessfully, d')"
    "\<exists>sa sb. mset (settlements d') = {#sa, sb#} \<and> s_status sa = Processed \<and> s_status sb = Processed"
    "\<exists>ea eb. mset (credit_ledger d') = {#ea, eb#} \<and> l_balance_after ea = 200 \<and> l_balance_after eb = 200"
    "map p_id (profiles d') = [''u1'']"
    "\<forall>p \<in> set (profiles d'). p_id p = ''u1'' \<longrightarrow> p_credit_balance p = 200"
    unfolding vals empty ids two_requests_def by (elim exE conjE) (simp, blast)
  from d'(4) obtain p where p: "profiles d' = [p]" "p_id p = ''u1''"
    by (auto simp: map_eq_Cons_conv)
  then have bal: "map p_credit_balance (profiles d') = [200]" using d'(5) by simp
  have "two_requests 500 300 alternating
               = (Returned RecordedSuccessfully, Returned RecordedSuccessfully, d')
         \<and> (\<exists>sa sb. mset (settlements d') = {#sa, sb#}
               \<and> s_status sa = Processed \<and> s_status sb = Processed)
         \<and> (\<exists>ea eb. mset (credit_ledger d') = {#ea, eb#}
               \<and> l_balance_after ea = 200 \<and> l_balance_after eb = 200)
         \<and> map p_credit_balance (profiles d') = [200]"
    using d'(1) d'(2) d'(3) bal by (intro conjI)
  then have "\<exists>d'. two_requests 500 300 alternating
               = (Returned RecordedSuccessfully, Returned RecordedSuccessfully, d')
         \<and> (\<exists>sa sb. mset (settlements d') = {#sa, sb#}
               \<and> s_status sa = Processed \<and> s_status sb = Processed)
         \<and> (\<exists>ea eb. mset (credit_ledger d') = {#ea, eb#}
               \<and> l_balance_after ea = 200 \<and> l_balance_after eb = 200)
         \<and> map p_credit_balance (profiles d') = [200]"
    by (rule exI)
  then show ?thesis using pa pb ne n1 n2 by (intro conjI)
qed

section \<open>The rate lookup\<close>

lemma le_zero_iff: "le_zero x = (\<not> gt_zero x)"
  by (cases x) auto

lemma extract_rate_offered:
  "r_ok res \<Longrightarrow> r_body res = Some j \<Longrightarrow>
   extract_rate (opt_prop (Val j) ''nila'') = offered_rate (Some res)"
  by (auto simp: extract_rate_def offered_rate_def split: json.splits option.splits jsval.splits)

lemma FALLBACK_RATE_pos: "gt_zero FALLBACK_RATE"
  by (simp add: FALLBACK_RATE_def)

lemma backend_try_pos: "backend_try e = Inr (Some x) \<Longrightarrow> gt_zero x"
  by (auto simp: backend_try_def split: option.splits if_splits json.splits jsval.splits)

lemma backend_try_none:
  "no_valid_rate (backend_fetch e) \<Longrightarrow> backend_try e = Inr r \<Longrightarrow> r = None"
  by (auto simp: backend_try_def no_valid_rate_def offered_rate_def
      split: option.splits if_splits json.splits jsval.splits)

lemma rate_try_pos: "rate_try e = Inr x \<Longrightarrow> gt_zero x"
  by (auto simp: rate_try_def Let_def FALLBACK_RATE_pos dest: backend_try_pos
      split: option.splits if_splits sum.splits)

text \<open>
  What holds of the lookup on every input: the page's result is above zero (a finite
  positive number or the infinity of an overflowing literal), and it is the fallback
  constant whenever neither the backend (if one is configured) nor the public API offers a
  rate above zero.
\<close>

lemma fetchNilaRate_gt_zero: "gt_zero (fetchNilaRate e)"
  by (cases "rate_try e") (auto simp: fetchNilaRate_def FALLBACK_RATE_pos dest: rate_try_pos)

lemma fetchNilaRate_falls_back:
  assumes "backend_unused e \<or> no_valid_rate (backend_fetch e)"
    and "no_valid_rate (coingecko_fetch e)"
  shows "fetchNilaRate e = FALLBACK_RATE"
proof -
  have b: "(case backendEndpoint e of None \<Rightarrow> None
             | Some endpoint \<Rightarrow> if endpoint = [] then None
                 else (case backend_try e of Inl proxyErr \<Rightarrow> None | Inr r \<Rightarrow> r)) = None"
    using assms(1)
    by (auto simp: backend_unused_def split: option.splits sum.splits dest: backend_try_none)
  have c: "(case coingecko_fetch e of
              None \<Rightarrow> Inl NetworkError
            | Some res \<Rightarrow>
                if r_ok res then
                  (case r_body res of
                     None \<Rightarrow> Inl SyntaxError
                   | Some j \<Rightarrow>
                       (case extract_rate (opt_prop (Val j) ''nila'') of
                          Some rate \<Rightarrow>
                            if \<not> falsy rate \<and> gt_zero rate then Inr rate else Inr FALLBACK_RATE
                        | None \<Rightarrow> Inr FALLBACK_RATE))
                else Inr FALLBACK_RATE) \<in> {Inl NetworkError, Inl SyntaxError, Inr FALLBACK_RATE}"
    using assms(2)
    by (auto simp: no_valid_rate_def extract_rate_offered split: option.splits)
  show ?thesis
    using b c by (auto simp: fetchNilaRate_def rate_try_def Let_def)
qed

text \<open>
  The edge function answers a GET with status 200 and either a finite rate above zero (the
  fallback constant when its upstream has no valid rate) or, when its upstream offers the
  infinity of an overflowing literal, with \<open>nila: null\<close>.
\<close>

lemma serve_GET:
  "(\<exists>x. serve GET upstream = json_reply 200 (JObj [(''nila'', JNum (Finite x))]) \<and> 0 < x
       \<and> (no_valid_rate upstream \<longrightarrow> Finite x = FALLBACK_RATE))
   \<or> (offered_rate upstream = Some PosInfinity
       \<and> serve GET upstream = json_reply 200 (JObj [(''nila'', JNull)]))"
proof (cases "no_valid_rate upstream")
  case True
  then have "serve GET upstream = json_reply 200 (stringify_nila FALLBACK_RATE)"
    by (auto simp: serve_def no_valid_rate_def extract_rate_offered le_zero_iff
        split: option.splits)
  then have "serve GET upstream = json_reply 200 (JObj [(''nila'', JNum (Finite (1234 / 100000)))])
      \<and> (0::real) < 1234 / 100000 \<and> (no_valid_rate upstream \<longrightarrow> Finite (1234 / 100000) = FALLBACK_RATE)"
    by (simp add: stringify_nila_def FALLBACK_RATE_def)
  then show ?thesis by blast
next
  case False
  then obtain x where x: "offered_rate upstream = Some x" "gt_zero x"
    by (auto simp: no_valid_rate_def split: option.splits)
  then have s: "serve GET upstream = json_reply 200 (stringify_nila x)"
    by (cases x) (auto simp: serve_def offered_rate_def extract_rate_offered
        split: option.splits if_splits)
  show ?thesis
    using x s False by (cases x) (auto simp: stringify_nila_def)
qed

text \<open>
  C9. The claim holds of the code except for a rate that overflows: when the public API
  answers with a literal beyond the range of a double, the checks \<open>rate > 0\<close> let the
  infinity through. The page without a backend returns Infinity, the edge function replies
  with \<open>nila: null\<close>, and a page behind the edge function skips that reply and returns the
  Infinity of the public API; none of them falls back to 0.01234.
\<close>

theorem rate_lookup_passes_infinity_on:
  "fetchNilaRate rate_env_overflow = PosInfinity
   \<and> fetchNilaRate rate_env_overflow \<noteq> FALLBACK_RATE
   \<and> serve GET (Some overflowing_reply) = json_reply 200 (JObj [(''nila'', JNull)])
   \<and> fetchNilaRate rate_env_behind_edge = PosInfinity"
  by (simp add: fetchNilaRate_def rate_try_def backend_try_def extract_rate_def serve_def
      stringify_nila_def json_reply_def as_response_def rate_env_overflow_def
      rate_env_behind_edge_def overflowing_reply_def FALLBACK_RATE_def)

end
